theory Spec2Isabelle
  imports Complex_Main "HOL-Library.Product_Lexorder"
begin

section \<open>Conventions of the embedding\<close>

text \<open>
  The simulator is a Python program (\<^verbatim>\<open>wotlk_cat_sim.py\<close>). Its objects are modelled as
  records that are passed in and returned updated. Python floats are modelled as exact
  reals: every statement below is about the arithmetic the code writes down, not about
  IEEE rounding. Python exceptions are values of \<open>py_error\<close>; a function that can raise
  returns \<open>py_error + 'a\<close>.

  The classes \<^verbatim>\<open>player.Player\<close>, the trinket classes and \<^verbatim>\<open>sim_utils\<close> live in other modules.
  The attributes of the player that the simulation reads or writes are the fields of the
  record \<open>Player\<close>; everything else those objects own (private attributes, trinket
  objects, the state of numpy's global random generator) is one abstract component
  \<open>ext\<close> of the simulation state, and their methods are parameters of the model.
\<close>

datatype py_error =
  TypeError | KeyError | IndexError | AttributeError | ZeroDivisionError | UnboundLocalError
  | ValueError

definition bind_e :: "py_error + 'a \<Rightarrow> ('a \<Rightarrow> py_error + 'b) \<Rightarrow> py_error + 'b" where
  "bind_e m f = (case m of Inl e \<Rightarrow> Inl e | Inr x \<Rightarrow> f x)"

text \<open>Division of Python floats raises on a zero divisor.\<close>

definition py_div :: "real \<Rightarrow> real \<Rightarrow> py_error + real" where
  "py_div a b = (if b = 0 then Inl ZeroDivisionError else Inr (a / b))"

text \<open>\<^verbatim>\<open>np.arange(start, stop, step)\<close>: \<open>ceil((stop - start) / step)\<close> values
  \<open>start + i * step\<close>, none when that count is not positive.\<close>

definition arange :: "real \<Rightarrow> real \<Rightarrow> real \<Rightarrow> real list" where
  "arange start stop step =
     map (\<lambda>i. start + real i * step) [0..<nat \<lceil>(stop - start) / step\<rceil>]"

section \<open>Data model\<close>

subsection \<open>Uptime trackers\<close>

text \<open>The three classes of the source: the base class and its two subclasses.\<close>

datatype tracker_class = UptimeTracker_base | RipTracker | RoarTracker

record UptimeTracker =
  tracker_cls :: tracker_class
  uptime :: real
  last_update :: real
  active :: bool
  num_procs :: nat

text \<open>What \<^verbatim>\<open>is_active\<close> hands back: a boolean in the subclasses, and in the base class
  a \<^verbatim>\<open>NotImplementedError\<close> instance, which the source returns instead of raising.\<close>

datatype py_value = PyBool bool | PyNotImplementedError

subsection \<open>Combat log entries and damage breakdowns\<close>

text \<open>A field of a combat log entry is a string; \<open>Formatted f v\<close> is the string
  \<^verbatim>\<open>f % v\<close>. A damage breakdown maps an ability to \<^verbatim>\<open>{'casts': .., 'damage': ..}\<close>;
  dictionaries are association lists in insertion order.\<close>

datatype log_field = Text string | Formatted string real

type_synonym breakdown = "(string \<times> (string \<times> real) list) list"

subsection \<open>The player's attributes used by the simulation\<close>

text \<open>Trinket objects belong to other modules; they are referred to by number.\<close>

record Player =
  energy :: real
  combo_points :: int
  mana :: real
  rage :: real
  savage_roar :: bool
  berserk :: bool
  omen :: bool
  omen_proc :: bool
  cat_form :: bool
  ready_to_shift :: bool
  enrage :: bool
  five_second_rule :: bool
  shred_glyph :: bool
  berserk_glyph :: bool
  primal_gore :: bool
  player_gcd :: real
  omen_icd :: real
  rune_cd :: real
  tf_cd :: real
  berserk_cd :: real
  enrage_cd :: real
  mangle_cd :: real
  last_shift :: real
  furor :: int
  crit_chance :: real
  miss_chance :: real
  attack_power :: real
  rip_duration :: real
  rake_tick :: real
  rake_hit :: real
  lacerate_tick :: real
  shred_low :: real
  shred_high :: real
  bite_multiplier :: real
  roar_fac :: real
  bite_low :: "int \<rightharpoonup> real"
  bite_high :: "int \<rightharpoonup> real"
  rip_tick :: "int \<rightharpoonup> real"
  roar_durations :: "int \<rightharpoonup> real"
  mangle_cost :: real
  base_mangle_cost :: real
  roar_cost :: real
  rip_cost :: real
  bite_cost :: real
  rake_cost :: real
  shred_cost :: real
  player_swing_timer :: real
  dmg_breakdown :: breakdown
  proc_trinkets :: "nat list"
  player_log :: bool
  player_combat_log :: "log_field list option"

subsection \<open>The simulation\<close>

record Strategy =
  min_combos_for_rip :: int
  use_rake :: bool
  use_bite :: bool
  bite_time :: "real option"
  min_combos_for_bite :: int
  mangle_spam :: bool
  bear_mangle :: bool
  use_berserk :: bool
  prepop_berserk :: bool
  preproc_omen :: bool
  bearweave :: bool
  berserk_bite_thresh :: real
  lacerate_prio :: bool
  lacerate_time :: real
  powerbear :: bool
  min_roar_offset :: real

record Params =
  gift_of_arthas :: bool
  boss_armor :: real
  sunder :: int
  faerie_fire :: bool
  blood_frenzy :: bool
  shattering_throw :: bool
  tigers_fury :: bool

text \<open>\<open>trinkets\<close> holds the trinkets handed to the constructor; the debuff controller
  (\<open>use_sunder\<close>, sharing \<open>params\<close>) and the two trackers that the constructor appends
  to that list are fields of their own. \<open>mangle_end\<close> is \<^verbatim>\<open>np.inf\<close> when a bear tank keeps Mangle up: \<open>None\<close> stands for
  infinity. \<open>last_lacerate_tick\<close> and \<open>time_to_oom\<close> are \<open>None\<close> until first assigned.\<close>

record 'x Simulation =
  player :: Player
  ext :: 'x
  fight_length :: real
  latency :: real
  params :: Params
  strategy :: Strategy
  trinkets :: "nat list"
  use_sunder :: bool
  rip_tracker :: UptimeTracker
  roar_tracker :: UptimeTracker
  haste_multiplier :: real
  revitalize_frequency :: real
  mangle_debuff :: bool
  mangle_end :: "real option"
  rake_debuff :: bool
  rake_end :: real
  rake_ticks :: "real list"
  rake_damage :: real
  rake_sr_snapshot :: bool
  lacerate_debuff :: bool
  lacerate_end :: real
  lacerate_ticks :: "real list"
  lacerate_stacks :: int
  lacerate_damage :: real
  lacerate_crit_chance :: real
  last_lacerate_tick :: "real option"
  rip_debuff :: bool
  rip_start :: real
  rip_end :: real
  rip_ticks :: "real list"
  rip_damage :: real
  rip_crit_chance :: real
  rip_sr_snapshot :: bool
  berserk_end :: real
  tf_end :: real
  roar_end :: real
  swing_timer :: real
  swing_times :: "real list"
  next_action :: real
  time_to_oom :: "real option"
  proc_end_times :: "real list"
  sim_log :: bool
  combat_log :: "log_field list list"

section \<open>Uptime trackers\<close>

text \<open>\<^verbatim>\<open>UptimeTracker.__init__\<close> only calls \<^verbatim>\<open>reset\<close>; it accepts every class, the base
  class included.\<close>

definition reset_tracker :: "UptimeTracker \<Rightarrow> UptimeTracker" where
  "reset_tracker tr = tr\<lparr>uptime := 0, last_update := 15, active := False, num_procs := 0\<rparr>"

definition new_tracker :: "tracker_class \<Rightarrow> UptimeTracker" where
  "new_tracker c =
     reset_tracker \<lparr>tracker_cls = c, uptime = 0, last_update = 0, active = False, num_procs = 0\<rparr>"

fun is_active :: "tracker_class \<Rightarrow> Player \<Rightarrow> 'x Simulation \<Rightarrow> py_value" where
  "is_active UptimeTracker_base p s = PyNotImplementedError"
| "is_active RipTracker p s = PyBool (rip_debuff s)"
| "is_active RoarTracker p s = PyBool (savage_roar p)"

text \<open>\<^verbatim>\<open>UptimeTracker.update\<close>. The product \<^verbatim>\<open>dt * active_now\<close> raises \<^verbatim>\<open>TypeError\<close>
  when \<^verbatim>\<open>active_now\<close> is the exception object of the base class; the division raises
  \<^verbatim>\<open>ZeroDivisionError\<close> at \<^verbatim>\<open>time = 15\<close>. The returned damage is always \<open>0.0\<close>.\<close>

definition update_tracker ::
  "UptimeTracker \<Rightarrow> real \<Rightarrow> Player \<Rightarrow> 'x Simulation \<Rightarrow> py_error + (real \<times> UptimeTracker)" where
  "update_tracker tr time p s =
     (if time > last_update tr \<and> time < fight_length s - 15 then
        (let dt = time - last_update tr in
         case is_active (tracker_cls tr) p s of
           PyNotImplementedError \<Rightarrow> Inl TypeError
         | PyBool active_now \<Rightarrow>
             if time - 15 = 0 then Inl ZeroDivisionError
             else Inr (0, tr\<lparr>
               uptime := (uptime tr * (last_update tr - 15) + dt * of_bool active_now)
                          / (time - 15),
               last_update := time,
               num_procs := (if active_now \<and> \<not> active tr then num_procs tr + 1
                             else num_procs tr),
               active := active_now\<rparr>))
      else Inr (0, tr))"

text \<open>A sequence of \<^verbatim>\<open>update\<close> calls on one tracker, each with the time, player and
  simulation of that call; it stops at the first exception.\<close>

fun update_all ::
  "UptimeTracker \<Rightarrow> (real \<times> Player \<times> 'x Simulation) list \<Rightarrow> py_error + UptimeTracker" where
  "update_all tr [] = Inr tr"
| "update_all tr ((time, p, s) # calls) =
     (case update_tracker tr time p s of
        Inl e \<Rightarrow> Inl e
      | Inr (d, tr') \<Rightarrow> update_all tr' calls)"

section \<open>Methods of the collaborators\<close>

text \<open>The methods of \<^verbatim>\<open>player.Player\<close> that the simulation calls. A method reads and
  writes the player and the external state only (it holds no reference to the
  simulation); the cast methods return the damage done and whether the cast landed.
  \<^verbatim>\<open>sim_utils.calc_yellow_damage\<close> and numpy's generator (\<^verbatim>\<open>rand\<close>, \<^verbatim>\<open>randn\<close>, and
  \<^verbatim>\<open>seed()\<close>, which takes its seed from the operating system's entropy, here a number
  supplied from outside) read and write the external state. A trinket's \<^verbatim>\<open>update\<close> and
  \<^verbatim>\<open>deactivate\<close> are handed the player and the simulation and may change both;
  \<open>trinket_active\<close> and \<open>trinket_report\<close> are \<open>None\<close> for a trinket without the attributes
  \<^verbatim>\<open>active\<close>, or \<^verbatim>\<open>proc_name\<close>, \<^verbatim>\<open>num_procs\<close> and \<^verbatim>\<open>uptime\<close>. The collaborators'
  methods are taken to return; an exception of theirs is outside the model.\<close>

record 'x Externals =
  player_mangle :: "Player \<Rightarrow> 'x \<Rightarrow> (real \<times> bool) \<times> Player \<times> 'x"
  player_rake :: "bool \<Rightarrow> Player \<Rightarrow> 'x \<Rightarrow> (real \<times> bool) \<times> Player \<times> 'x"
  player_lacerate :: "bool \<Rightarrow> Player \<Rightarrow> 'x \<Rightarrow> (real \<times> bool) \<times> Player \<times> 'x"
  player_rip :: "Player \<Rightarrow> 'x \<Rightarrow> (real \<times> bool) \<times> Player \<times> 'x"
  player_shred :: "bool \<Rightarrow> Player \<Rightarrow> 'x \<Rightarrow> (real \<times> bool) \<times> Player \<times> 'x"
  player_bite :: "Player \<Rightarrow> 'x \<Rightarrow> real \<times> Player \<times> 'x"
  player_roar :: "real \<Rightarrow> Player \<Rightarrow> 'x \<Rightarrow> real \<times> Player \<times> 'x"
  player_shift :: "real \<Rightarrow> bool \<Rightarrow> Player \<Rightarrow> 'x \<Rightarrow> unit \<times> Player \<times> 'x"
  player_swing :: "Player \<Rightarrow> 'x \<Rightarrow> real \<times> Player \<times> 'x"
  player_maul :: "bool \<Rightarrow> Player \<Rightarrow> 'x \<Rightarrow> real \<times> Player \<times> 'x"
  player_regen :: "real \<Rightarrow> Player \<Rightarrow> 'x \<Rightarrow> unit \<times> Player \<times> 'x"
  player_reset :: "Player \<Rightarrow> 'x \<Rightarrow> unit \<times> Player \<times> 'x"
  set_ability_costs :: "Player \<Rightarrow> 'x \<Rightarrow> unit \<times> Player \<times> 'x"
  calc_damage_params :: "Params \<Rightarrow> Player \<Rightarrow> 'x \<Rightarrow> unit \<times> Player \<times> 'x"
  calc_crit_multiplier :: "Player \<Rightarrow> 'x \<Rightarrow> real"
  calc_yellow_damage :: "real \<Rightarrow> real \<Rightarrow> real \<Rightarrow> real \<Rightarrow> real \<Rightarrow> 'x \<Rightarrow> real \<times> 'x"
  np_rand :: "'x \<Rightarrow> real \<times> 'x"
  np_randn :: "'x \<Rightarrow> real \<times> 'x"
  np_seed :: "nat \<Rightarrow> 'x \<Rightarrow> 'x"
  trinket_reset :: "nat \<Rightarrow> 'x \<Rightarrow> 'x"
  trinket_update :: "nat \<Rightarrow> real \<Rightarrow> 'x Simulation \<Rightarrow> real \<times> 'x Simulation"
  trinket_periodic_only :: "nat \<Rightarrow> 'x \<Rightarrow> bool"
  trinket_check_for_proc :: "nat \<Rightarrow> bool \<Rightarrow> bool \<Rightarrow> 'x \<Rightarrow> 'x"
  trinket_active :: "nat \<Rightarrow> 'x \<Rightarrow> bool option"
  trinket_deactivate :: "nat \<Rightarrow> real \<Rightarrow> 'x Simulation \<Rightarrow> 'x Simulation"
  trinket_report :: "nat \<Rightarrow> 'x \<Rightarrow> (string \<times> real \<times> real) option"

text \<open>Running a player method inside the simulation: the player and the external state
  are replaced, nothing else.\<close>

definition call_player ::
  "(Player \<Rightarrow> 'x \<Rightarrow> 'r \<times> Player \<times> 'x) \<Rightarrow> 'x Simulation \<Rightarrow> 'r \<times> 'x Simulation" where
  "call_player m s = (case m (player s) (ext s) of (r, p', x') \<Rightarrow> (r, s\<lparr>player := p', ext := x'\<rparr>))"

section \<open>Ability casts\<close>

text \<open>\<^verbatim>\<open>Simulation.lacerate\<close>.\<close>

definition lacerate ::
  "'x Externals \<Rightarrow> 'x Simulation \<Rightarrow> real \<Rightarrow> py_error + (real \<times> 'x Simulation)" where
  "lacerate X s time =
     (case call_player (player_lacerate X (mangle_debuff s)) s of
        ((damage_done, success), s1) \<Rightarrow>
          if success then
            (let s2 = s1\<lparr>lacerate_end := time + 15\<rparr>;
                 finish = (\<lambda>s3. Inr (damage_done, s3\<lparr>
                   lacerate_damage :=
                     lacerate_tick (player s3) * real_of_int (lacerate_stacks s3)
                     * (1 + 0.15 * of_bool (enrage (player s3))),
                   lacerate_crit_chance := crit_chance (player s3) - 0.04\<rparr>))
             in
             if lacerate_debuff s2 then
               (case (if lacerate_ticks s2 \<noteq> [] then Some (last (lacerate_ticks s2))
                      else last_lacerate_tick s2) of
                  None \<Rightarrow> Inl AttributeError
                | Some last_tick \<Rightarrow>
                    finish (s2\<lparr>
                      lacerate_ticks := lacerate_ticks s2
                        @ arange (last_tick + 3) (lacerate_end s2 + 1 / 10 ^ 9) 3,
                      lacerate_stacks := min (lacerate_stacks s2 + 1) 5\<rparr>))
             else
               finish (s2\<lparr>
                 lacerate_debuff := True,
                 lacerate_ticks := arange (time + 3) (time + 16) 3,
                 lacerate_stacks := 1\<rparr>))
          else Inr (damage_done, s1))"

text \<open>\<^verbatim>\<open>Simulation.shred\<close>, with the Glyph of Shred extension of Rip.\<close>

definition shred :: "'x Externals \<Rightarrow> 'x Simulation \<Rightarrow> real \<times> 'x Simulation" where
  "shred X s =
     (case call_player (player_shred X (mangle_debuff s)) s of
        ((damage_done, success), s1) \<Rightarrow>
          if success \<and> rip_debuff s1 \<and> shred_glyph (player s1) then
            (if rip_end s1 - rip_start s1 < rip_duration (player s1) + 6 then
               (damage_done, s1\<lparr>rip_end := rip_end s1 + 2,
                                rip_ticks := rip_ticks s1 @ [rip_end s1 + 2]\<rparr>)
             else (damage_done, s1))
          else (damage_done, s1))"

section \<open>Rotation heuristics\<close>

text \<open>\<^verbatim>\<open>Simulation.clip_roar\<close>. The lookup \<^verbatim>\<open>roar_durations[combo_points]\<close> raises when the
  table has no entry for the current combo points.\<close>

definition clip_roar :: "'x Simulation \<Rightarrow> real \<Rightarrow> py_error + bool" where
  "clip_roar s time =
     (if \<not> rip_debuff s \<or> fight_length s - rip_end s < 10 then Inr False
      else
        (let max_rip_dur = rip_duration (player s) + 6 * of_bool (shred_glyph (player s));
             rip_end' = rip_start s + max_rip_dur
         in
         if roar_end s > rip_end' then Inr False
         else
           (case roar_durations (player s) (combo_points (player s)) of
              None \<Rightarrow> Inl KeyError
            | Some new_roar_dur \<Rightarrow>
                (let new_roar_end = time + new_roar_dur
                 in Inr (new_roar_end \<ge> rip_end' + min_roar_offset (strategy s))))))"

section \<open>Logging, buffs and bleeds\<close>

text \<open>\<^verbatim>\<open>gen_log\<close>, and the recurring \<^verbatim>\<open>if self.log: self.combat_log.append(self.gen_log(..))\<close>.\<close>

definition gen_log :: "'x Simulation \<Rightarrow> real \<Rightarrow> string \<Rightarrow> log_field \<Rightarrow> log_field list" where
  "gen_log s time event outcome =
     [Formatted ''%.3f'' time, Text event, outcome,
      Formatted ''%.1f'' (energy (player s)),
      Formatted ''%d'' (real_of_int (combo_points (player s))),
      Formatted ''%d'' (mana (player s)), Formatted ''%d'' (rage (player s))]"

definition log_event :: "'x Simulation \<Rightarrow> real \<Rightarrow> string \<Rightarrow> log_field \<Rightarrow> 'x Simulation" where
  "log_event s time event outcome =
     (if sim_log s then s\<lparr>combat_log := combat_log s @ [gen_log s time event outcome]\<rparr>
      else s)"

text \<open>\<^verbatim>\<open>Simulation.mangle\<close>, \<^verbatim>\<open>rake\<close> and \<^verbatim>\<open>rip\<close>.\<close>

definition mangle :: "'x Externals \<Rightarrow> 'x Simulation \<Rightarrow> real \<Rightarrow> real \<times> 'x Simulation" where
  "mangle X s time =
     (case call_player (player_mangle X) s of
        ((damage_done, success), s1) \<Rightarrow>
          if success then
            (damage_done, s1\<lparr>mangle_debuff := True,
               mangle_end := (if bear_mangle (strategy s1) then None else Some (time + 60))\<rparr>)
          else (damage_done, s1))"

definition rake :: "'x Externals \<Rightarrow> 'x Simulation \<Rightarrow> real \<Rightarrow> real \<times> 'x Simulation" where
  "rake X s time =
     (case call_player (player_rake X (mangle_debuff s)) s of
        ((damage_done, success), s1) \<Rightarrow>
          if success then
            (damage_done, s1\<lparr>rake_debuff := True, rake_end := time + 9,
               rake_ticks := arange (time + 3) (time + 901 / 100) 3,
               rake_damage := rake_tick (player s1),
               rake_sr_snapshot := savage_roar (player s1)\<rparr>)
          else (damage_done, s1))"

definition rip :: "'x Externals \<Rightarrow> 'x Simulation \<Rightarrow> real \<Rightarrow> real \<times> 'x Simulation" where
  "rip X s time =
     (case call_player (player_rip X) s of
        ((damage_per_tick, success), s1) \<Rightarrow>
          if success then
            (let rip_end' = time + rip_duration (player s1) in
             (0, s1\<lparr>rip_debuff := True, rip_start := time, rip_end := rip_end',
                   rip_ticks := arange (time + 2) (rip_end' + 1 / 10 ^ 9) 2,
                   rip_damage := damage_per_tick,
                   rip_crit_chance := crit_chance (player s1),
                   rip_sr_snapshot := savage_roar (player s1)\<rparr>))
          else (0, s1))"

text \<open>\<^verbatim>\<open>update_swing_times\<close>. A swing timer of zero makes \<^verbatim>\<open>np.arange\<close> raise.\<close>

definition update_swing_times ::
  "'x Simulation \<Rightarrow> real \<Rightarrow> real \<Rightarrow> bool \<Rightarrow> py_error + 'x Simulation" where
  "update_swing_times s time new_swing_timer first_swing =
     bind_e
       (if first_swing then Inr time
        else
          (case swing_times s of
             [] \<Rightarrow> Inl IndexError
           | t0 # ts \<Rightarrow>
               bind_e (py_div (t0 - time) (swing_timer s))
                 (\<lambda>frac_remaining. Inr (time + frac_remaining * new_swing_timer))))
       (\<lambda>start_time.
          (let s1 = s\<lparr>swing_timer := new_swing_timer\<rparr> in
           if start_time > fight_length s1 - swing_timer s1 then
             Inr (s1\<lparr>swing_times := [start_time, start_time + swing_timer s1]\<rparr>)
           else if swing_timer s1 = 0 then Inl ValueError
           else
             Inr (s1\<lparr>swing_times :=
                        arange start_time (fight_length s1 + swing_timer s1) (swing_timer s1)\<rparr>)))"

text \<open>\<^verbatim>\<open>apply_tigers_fury\<close>, \<^verbatim>\<open>drop_tigers_fury\<close>, \<^verbatim>\<open>apply_berserk\<close> and \<^verbatim>\<open>drop_berserk\<close>.\<close>

definition apply_tigers_fury :: "'x Externals \<Rightarrow> 'x Simulation \<Rightarrow> real \<Rightarrow> 'x Simulation" where
  "apply_tigers_fury X s time =
     (let s1 = s\<lparr>player := (player s)\<lparr>energy := min 100 (energy (player s) + 60)\<rparr>,
                  params := (params s)\<lparr>tigers_fury := True\<rparr>\<rparr>;
          s2 = snd (call_player (calc_damage_params X (params s1)) s1);
          s3 = s2\<lparr>tf_end := time + 6, player := (player s2)\<lparr>tf_cd := 30\<rparr>,
                  next_action := time + latency s2,
                  proc_end_times := sort (proc_end_times s2 @ [time + 30])\<rparr>
      in log_event s3 time ''Tiger's Fury'' (Text ''applied''))"

definition drop_tigers_fury :: "'x Externals \<Rightarrow> 'x Simulation \<Rightarrow> real \<Rightarrow> 'x Simulation" where
  "drop_tigers_fury X s time =
     (let s1 = s\<lparr>params := (params s)\<lparr>tigers_fury := False\<rparr>\<rparr>;
          s2 = snd (call_player (calc_damage_params X (params s1)) s1)
      in log_event s2 time ''Tiger's Fury'' (Text ''falls off''))"

definition apply_berserk ::
  "'x Externals \<Rightarrow> 'x Simulation \<Rightarrow> real \<Rightarrow> bool \<Rightarrow> 'x Simulation" where
  "apply_berserk X s time prepop =
     (let s1 = s\<lparr>player := (player s)\<lparr>berserk := True\<rparr>\<rparr>;
          s2 = snd (call_player (set_ability_costs X) s1);
          s3 = s2\<lparr>player := (player s2)\<lparr>player_gcd := 1 * of_bool (\<not> prepop)\<rparr>\<rparr>;
          s4 = s3\<lparr>berserk_end := time + 15 + 5 * of_bool (berserk_glyph (player s3))\<rparr>;
          s5 = s4\<lparr>player := (player s4)\<lparr>berserk_cd := 180 - of_bool prepop\<rparr>\<rparr>
      in log_event s5 time ''Berserk'' (Text ''applied''))"

definition drop_berserk :: "'x Externals \<Rightarrow> 'x Simulation \<Rightarrow> real \<Rightarrow> 'x Simulation" where
  "drop_berserk X s time =
     (let s1 = s\<lparr>player := (player s)\<lparr>berserk := False\<rparr>\<rparr>;
          s2 = snd (call_player (set_ability_costs X) s1)
      in log_event s2 time ''Berserk'' (Text ''falls off''))"

text \<open>\<^verbatim>\<open>d[ability][key] += v\<close> on a damage breakdown.\<close>

definition lookup2 :: "breakdown \<Rightarrow> string \<Rightarrow> string \<rightharpoonup> real" where
  "lookup2 d ability key = (case map_of d ability of None \<Rightarrow> None | Some kvs \<Rightarrow> map_of kvs key)"

definition add_to_breakdown :: "breakdown \<Rightarrow> string \<Rightarrow> string \<Rightarrow> real \<Rightarrow> py_error + breakdown" where
  "add_to_breakdown d ability key v =
     (case lookup2 d ability key of
        None \<Rightarrow> Inl KeyError
      | Some old \<Rightarrow>
          Inr (map (\<lambda>(a, kvs).
                 if a = ability
                 then (a, map (\<lambda>(k, w). if k = key then (k, w + v) else (k, w)) kvs)
                 else (a, kvs)) d))"

text \<open>The loop over \<^verbatim>\<open>player.proc_trinkets\<close> at the end of \<^verbatim>\<open>apply_bleed_damage\<close>.\<close>

fun periodic_procs ::
  "'x Externals \<Rightarrow> real \<Rightarrow> nat list \<Rightarrow> real \<times> 'x Simulation \<Rightarrow> real \<times> 'x Simulation" where
  "periodic_procs X time [] acc = acc"
| "periodic_procs X time (trinket # rest) (tick_damage, s) =
     (if trinket_periodic_only X trinket (ext s) then
        (case trinket_update X trinket time
                (s\<lparr>ext := trinket_check_for_proc X trinket False True (ext s)\<rparr>) of
           (bonus, s1) \<Rightarrow> periodic_procs X time rest (tick_damage + bonus, s1))
      else periodic_procs X time rest (tick_damage, s))"

text \<open>\<^verbatim>\<open>apply_bleed_damage\<close>.\<close>

definition apply_bleed_damage ::
  "'x Externals \<Rightarrow> 'x Simulation \<Rightarrow> real \<Rightarrow> real \<Rightarrow> string \<Rightarrow> bool \<Rightarrow> real
     \<Rightarrow> py_error + (real \<times> 'x Simulation)" where
  "apply_bleed_damage X s base_tick_damage crit ability_name sr_snapshot time =
     (let tick0 = base_tick_damage * (1 + 0.3 * of_bool (mangle_debuff s));
          (tick1, s1) =
            (if crit > 0 \<and> primal_gore (player s) then
               (case calc_yellow_damage X tick0 tick0 0 crit
                       (calc_crit_multiplier X (player s) (ext s)) (ext s) of
                  (dmg, x') \<Rightarrow> (dmg, s\<lparr>ext := x'\<rparr>))
             else (tick0, s))
      in
      bind_e (add_to_breakdown (dmg_breakdown (player s1)) ability_name ''damage'' tick1)
        (\<lambda>d1.
           bind_e
             (if sr_snapshot then
                bind_e (add_to_breakdown d1 ''Savage Roar'' ''damage''
                          (roar_fac (player s1) * tick1))
                  (\<lambda>d2. Inr (d2, tick1 * (1 + roar_fac (player s1))))
              else Inr (d1, tick1))
             (\<lambda>(d3, tick2).
                (let s2 = s1\<lparr>player := (player s1)\<lparr>dmg_breakdown := d3\<rparr>\<rparr>;
                     s3 = log_event s2 time (ability_name @ '' tick'') (Formatted ''%d'' tick2)
                 in Inr (periodic_procs X time (proc_trinkets (player s3)) (tick2, s3))))))"

section \<open>Rotation decision engine\<close>

text \<open>\<^verbatim>\<open>berserk_expected_at\<close> and \<^verbatim>\<open>tf_expected_before\<close>.\<close>

definition berserk_expected_at :: "'x Simulation \<Rightarrow> real \<Rightarrow> real \<Rightarrow> bool" where
  "berserk_expected_at s current_time future_time =
     (if berserk (player s) then
        future_time < berserk_end s \<or> future_time > current_time + berserk_cd (player s)
      else if berserk_cd (player s) > 1 / 10 ^ 9 then
        future_time > current_time + berserk_cd (player s)
      else if tigers_fury (params s) \<and> use_berserk (strategy s) then future_time > tf_end s
      else False)"

definition tf_expected_before :: "'x Simulation \<Rightarrow> real \<Rightarrow> real \<Rightarrow> bool" where
  "tf_expected_before s current_time future_time =
     (if tf_cd (player s) > 1 / 10 ^ 9 then current_time + tf_cd (player s) < future_time
      else if berserk (player s) then berserk_end s < future_time
      else True)"

text \<open>\<^verbatim>\<open>get_finisher_costs\<close>: the costs of a Rip refresh, of a Bite now and of a Roar
  refresh.\<close>

definition get_finisher_costs :: "'x Simulation \<Rightarrow> real \<Rightarrow> real \<times> real \<times> real" where
  "get_finisher_costs s time =
     (let rip_end' = (if \<not> rip_debuff s then time else rip_end s);
          ripcost = (if berserk_expected_at s time rip_end' then 15 else 30);
          bitecost =
            (if energy (player s) \<ge> bite_cost (player s)
             then min (bite_cost (player s) + 30) (energy (player s))
             else bite_cost (player s) + 10 * latency s);
          sr_end = (if \<not> savage_roar (player s) then time else roar_end s);
          srcost = (if berserk_expected_at s time sr_end then 25 / 2 else 25)
      in (ripcost, bitecost, srcost))"

text \<open>A lookup in one of the player's per-combo-point tables.\<close>

definition table_get :: "(int \<rightharpoonup> real) \<Rightarrow> int \<Rightarrow> py_error + real" where
  "table_get t k = (case t k of None \<Rightarrow> Inl KeyError | Some v \<Rightarrow> Inr v)"

text \<open>\<^verbatim>\<open>calc_allowed_rip_downtime\<close>.\<close>

definition calc_allowed_rip_downtime ::
  "'x Externals \<Rightarrow> 'x Simulation \<Rightarrow> real \<Rightarrow> py_error + (real \<times> real)" where
  "calc_allowed_rip_downtime X s time =
     (let p = player s;
          rip_cp = min_combos_for_rip (strategy s);
          bite_cp = min_combos_for_bite (strategy s)
      in
      case get_finisher_costs s time of (rip_cost', bite_cost', roar_cost') \<Rightarrow>
      (let crit_factor = calc_crit_multiplier X p (ext s) - 1 in
       bind_e (table_get (bite_low p) bite_cp) (\<lambda>lo.
       bind_e (table_get (bite_high p) bite_cp) (\<lambda>hi.
       (let bite_base_dmg = 0.5 * (lo + hi);
            bite_bonus_dmg = (bite_cost' - bite_cost p) * (9.4 + attack_power p / 410)
                             * bite_multiplier p;
            bite_dpc = (bite_base_dmg + bite_bonus_dmg)
                       * (1 + crit_factor * (crit_chance p + 0.25));
            crit_mod = crit_factor * crit_chance p
        in
        bind_e (table_get (rip_tick p) rip_cp) (\<lambda>tick.
        (let avg_rip_tick = tick * 1.3 * (1 + crit_mod * of_bool (primal_gore p));
             shred_dpc = 0.5 * (shred_low p + shred_high p) * 1.3 * (1 + crit_mod)
         in
         bind_e (py_div (bite_dpc - (bite_cost' - rip_cost') * shred_dpc / 42) avg_rip_tick)
           (\<lambda>q1.
         (let allowed_rip_downtime = q1 * 2 in
          bind_e (py_div (42 * bite_dpc) shred_dpc) (\<lambda>q2.
          (let cpe = (q2 - 35) / 5;
               srep1 = (1 - 5) * (cpe - 125 / 34);
               srep2 = (2 - 5) * (cpe - 125 / 34);
               srep_avg = crit_chance p * srep2 + (1 - crit_chance p) * srep1;
               rake_dpc = 1.3 * (rake_hit p * (1 + crit_mod)
                            + 3 * rake_tick p * (1 + crit_mod * of_bool (primal_gore p)))
           in
           bind_e (py_div (bite_dpc - shred_dpc / 42 * min srep_avg (min srep1 srep2))
                     (0.33 / 1.33 * rake_dpc))
             (\<lambda>allowed_sr_downtime. Inr (allowed_rip_downtime, allowed_sr_downtime)))))))))))))"

text \<open>\<^verbatim>\<open>can_bite_analytical\<close>.\<close>

definition can_bite_analytical :: "'x Externals \<Rightarrow> 'x Simulation \<Rightarrow> real \<Rightarrow> py_error + bool" where
  "can_bite_analytical X s time =
     (let p = player s;
          maxripdur = rip_duration p + 6 * of_bool (shred_glyph p);
          ripdur = rip_start s + maxripdur - time;
          srdur = roar_end s - time;
          mindur = min ripdur srdur;
          maxdur = max ripdur srdur;
          gain_min0 = 10 * mindur + (if tf_expected_before s time (time + mindur) then 60 else 0);
          gain_max0 = 10 * maxdur + (if tf_expected_before s time (time + maxdur) then 60 else 0)
      in
      bind_e
        (if omen p then
           bind_e (py_div mindur (swing_timer s)) (\<lambda>a.
           bind_e (py_div maxdur (swing_timer s)) (\<lambda>b.
             Inr (gain_min0 + a * (3.5 / 60 * (1 - miss_chance p) * 42),
                  gain_max0 + b * (3.5 / 60 * (1 - miss_chance p) * 42))))
         else Inr (gain_min0, gain_max0))
        (\<lambda>(gain_min1, gain_max1).
      bind_e (py_div mindur (revitalize_frequency s)) (\<lambda>c.
      bind_e (py_div maxdur (revitalize_frequency s)) (\<lambda>d.
      (let expected_energy_gain_min = gain_min1 + c * 0.15 * 8;
           expected_energy_gain_max = gain_max1 + d * 0.15 * 8;
           total_energy_min = energy p + expected_energy_gain_min;
           total_energy_max = energy p + expected_energy_gain_max
       in
       case get_finisher_costs s time of (ripcost, bitecost, srcost) \<Rightarrow>
       (let cp_per_builder = 1 + crit_chance p;
            cost_per_builder = (42 + 42 + 35) / 3 * (1 + 0.2 * miss_chance p);
            nextcost = (if srdur < ripdur then srcost else ripcost);
            secondcps = (if srdur < ripdur then 5 else (1::real))
        in
        bind_e (py_div 5 cp_per_builder) (\<lambda>e1.
        bind_e (py_div (5 + secondcps) cp_per_builder) (\<lambda>e2.
        (let total_energy_cost_min0 = bitecost + e1 * cost_per_builder + nextcost;
             total_energy_cost_max0 = bitecost + e2 * cost_per_builder + ripcost + srcost
         in
         bind_e (calc_allowed_rip_downtime X s time) (\<lambda>(rip_downtime0, sr_downtime0).
         bind_e (py_div rip_downtime0 maxripdur) (\<lambda>f1.
         bind_e (py_div 1 (1 + f1)) (\<lambda>f2.
         bind_e (py_div 1 (1 + sr_downtime0 / 34)) (\<lambda>f3.
         (let rip_downtime = maxripdur * (1 - f2);
              sr_downtime = 34 * (1 - f3);
              next_downtime = (if srdur < ripdur then sr_downtime else rip_downtime);
              total_energy_cost_min = total_energy_cost_min0 - 10 * next_downtime;
              total_energy_cost_max = total_energy_cost_max0 - 10 * min rip_downtime sr_downtime
          in Inr (total_energy_min > total_energy_cost_min
                  \<and> total_energy_max > total_energy_cost_max)))))))))))))))"

text \<open>\<^verbatim>\<open>can_bite\<close>.\<close>

definition can_bite :: "'x Externals \<Rightarrow> 'x Simulation \<Rightarrow> real \<Rightarrow> py_error + bool" where
  "can_bite X s time =
     (case bite_time (strategy s) of
        Some bt \<Rightarrow> Inr (rip_end s - time \<ge> bt \<and> roar_end s - time \<ge> bt)
      | None \<Rightarrow> can_bite_analytical X s time)"

text \<open>The local variables that \<^verbatim>\<open>execute_rotation\<close> computes before it branches.\<close>

record rotation_locals =
  rip_now :: bool
  bite_now :: bool
  rake_now :: bool
  mangle_now :: bool
  berserk_now :: bool
  roar_now :: bool
  pending_actions :: "(real \<times> real) list"
  rip_refresh_pending :: bool
  bearweave_now :: bool
  emergency_bearweave :: bool
  floating_energy :: real
  excess_e :: real

text \<open>The list of pending refreshes, in the order the source appends them, then sorted.\<close>

definition pending_refreshes :: "'x Simulation \<Rightarrow> real \<Rightarrow> (real \<times> real) list" where
  "pending_refreshes s time =
     sort (
       (if rip_debuff s \<and> rip_end s < fight_length s - 10
        then [(rip_end s, if berserk_expected_at s time (rip_end s) then 15 else 30)] else [])
       @ (if rake_debuff s \<and> rake_end s < fight_length s - 9
          then [(rake_end s, if berserk_expected_at s time (rake_end s) then 35 / 2 else 35)]
          else [])
       @ (case mangle_end s of
            Some m_end \<Rightarrow>
              if mangle_debuff s \<and> m_end < fight_length s - 1
              then [(m_end, if berserk_expected_at s time m_end
                            then 0.5 * base_mangle_cost (player s)
                            else base_mangle_cost (player s))]
              else []
          | None \<Rightarrow> [])
       @ (if savage_roar (player s)
          then [(roar_end s, if berserk_expected_at s time (roar_end s) then 25 / 2 else 25)]
          else []))"

text \<open>The loop that accumulates the floating energy; the accumulator is
  \<open>(floating_energy, previous_time)\<close>.\<close>

fun float_energy :: "(real \<times> real) list \<Rightarrow> real \<times> real \<Rightarrow> real \<times> real" where
  "float_energy [] acc = acc"
| "float_energy ((refresh_time, refresh_cost) # rest) (floating, previous_time) =
     (let delta_t = refresh_time - previous_time in
      if delta_t < refresh_cost / 10
      then float_energy rest (floating + (refresh_cost - 10 * delta_t), refresh_time)
      else float_energy rest (floating, previous_time + refresh_cost / 10))"

definition compute_locals ::
  "'x Externals \<Rightarrow> 'x Simulation \<Rightarrow> real \<Rightarrow> py_error + rotation_locals" where
  "compute_locals X s time =
     (let p = player s;
          energy' = energy p;
          cp = combo_points p;
          rip_cp = min_combos_for_rip (strategy s);
          bite_cp = min_combos_for_bite (strategy s);
          end_thresh = 10;
          rip_now' = (cp \<ge> rip_cp \<and> \<not> rip_debuff s \<and> fight_length s - time \<ge> end_thresh
                      \<and> \<not> omen_proc p);
          bite_at_end = (cp \<ge> bite_cp
                         \<and> (fight_length s - time < end_thresh
                            \<or> (rip_debuff s \<and> fight_length s - rip_end s < end_thresh)));
          mangle_now' = (\<not> rip_now' \<and> \<not> mangle_debuff s)
      in
      bind_e
        (if cp \<ge> bite_cp \<and> rip_debuff s \<and> savage_roar p \<and> use_bite (strategy s)
         then can_bite X s time else Inr False)
        (\<lambda>bite_before_rip.
      (let bite_now0 = ((bite_before_rip \<or> bite_at_end) \<and> \<not> omen_proc p);
           bite_now' = (if bite_now0 \<and> berserk p
                        then energy' \<le> berserk_bite_thresh (strategy s) else bite_now0);
           rake_now' = (use_rake (strategy s) \<and> \<not> rake_debuff s
                        \<and> fight_length s - time > 9 \<and> \<not> omen_proc p);
           berserk_now' = (use_berserk (strategy s) \<and> berserk_cd p < 1 / 10 ^ 9
                           \<and> tf_cd p > 15 + 5 * of_bool (berserk_glyph p))
       in
       bind_e
         (if cp \<ge> 1 then (if \<not> savage_roar p then Inr True else clip_roar s time)
          else Inr False)
         (\<lambda>roar_now'.
       (let rip_refresh_pending' = (rip_debuff s \<and> rip_end s < fight_length s - end_thresh);
            pending = pending_refreshes s time;
            furor_cap = min (20 * real_of_int (furor p)) 85;
            weave_energy = furor_cap - 30 - 20 * latency s - (if furor p > 3 then 15 else 0);
            weave_end = time + 4.5 + 2 * latency s;
            bearweave_now0 = (bearweave (strategy s) \<and> energy' \<le> weave_energy
                              \<and> \<not> omen_proc p
                              \<and> (\<not> rip_refresh_pending' \<or> rip_end s \<ge> weave_end)
                              \<and> \<not> berserk p);
            bearweave_now' = (if bearweave_now0 \<and> \<not> lacerate_prio (strategy s)
                              then \<not> tf_expected_before s time weave_end else bearweave_now0);
            emergency_bearweave' = (bearweave (strategy s) \<and> lacerate_prio (strategy s)
                                    \<and> lacerate_debuff s
                                    \<and> lacerate_end s - time < 2.5 + latency s
                                    \<and> lacerate_end s < fight_length s);
            floating = fst (float_energy pending (0, time))
        in
        Inr \<lparr>rip_now = rip_now', bite_now = bite_now', rake_now = rake_now',
             mangle_now = mangle_now', berserk_now = berserk_now', roar_now = roar_now',
             pending_actions = pending, rip_refresh_pending = rip_refresh_pending',
             bearweave_now = bearweave_now', emergency_bearweave = emergency_bearweave',
             floating_energy = floating, excess_e = energy' - floating\<rparr>)))))"

text \<open>The end of \<^verbatim>\<open>execute_rotation\<close>: no cast was made; the next decision is scheduled
  after the wait, no later than the first pending refresh, plus the input latency.\<close>

definition schedule_next ::
  "'x Simulation \<Rightarrow> real \<Rightarrow> rotation_locals \<Rightarrow> real \<Rightarrow> 'x Simulation" where
  "schedule_next s time L time_to_next_action =
     (let next_action0 = time + time_to_next_action;
          next_action1 = (case pending_actions L of
                            [] \<Rightarrow> next_action0
                          | (due, cost) # rest \<Rightarrow> min next_action0 due)
      in s\<lparr>next_action := next_action1 + latency s\<rparr>)"

text \<open>The branch of \<^verbatim>\<open>execute_rotation\<close> taken outside Cat Form.\<close>

definition bear_rotation ::
  "'x Externals \<Rightarrow> 'x Simulation \<Rightarrow> real \<Rightarrow> rotation_locals
     \<Rightarrow> py_error + (real \<times> 'x Simulation)" where
  "bear_rotation X s time L =
     (let p = player s;
          energy' = energy p;
          furor_cap = min (20 * real_of_int (furor p)) 85;
          shift_now0 = (energy' + 15 + 10 * latency s > furor_cap
                        \<or> (rip_refresh_pending L \<and> rip_end s < time + 3));
          shift_next = (energy' + 30 + 10 * latency s > furor_cap
                        \<or> (rip_refresh_pending L \<and> rip_end s < time + 4.5));
          powerbear_now = (powerbear (strategy s) \<and> \<not> shift_now0 \<and> rage p < 10);
          shift_now1 = (if powerbear (strategy s) then shift_now0
                        else shift_now0 \<or> rage p < 10);
          build_lacerate = (\<not> lacerate_debuff s \<or> lacerate_stacks s < 5);
          maintain_lacerate = (\<not> build_lacerate
                               \<and> lacerate_end s - time \<le> lacerate_time (strategy s)
                               \<and> (rage p < 38 \<or> shift_next)
                               \<and> lacerate_end s < fight_length s);
          lacerate_now = (lacerate_prio (strategy s) \<and> (build_lacerate \<or> maintain_lacerate));
          emergency_lacerate = (lacerate_prio (strategy s) \<and> lacerate_debuff s
                                \<and> lacerate_end s - time < 3 + 2 * latency s
                                \<and> lacerate_end s < fight_length s);
          shift_now = (if \<not> lacerate_prio (strategy s) \<or> \<not> lacerate_now
                       then shift_now1 \<or> omen_proc p else shift_now1)
      in
      if emergency_lacerate \<and> rage p \<ge> 13 then lacerate X s time
      else if shift_now then
        Inr (0, schedule_next (s\<lparr>player := p\<lparr>ready_to_shift := True\<rparr>\<rparr>) time L 0)
      else if powerbear_now then
        Inr (0, schedule_next (snd (call_player (player_shift X time True) s)) time L 0)
      else if lacerate_now \<and> rage p \<ge> 13 then lacerate X s time
      else if rage p \<ge> 15 \<and> mangle_cd p < 1 / 10 ^ 9 then Inr (mangle X s time)
      else if rage p \<ge> 13 then lacerate X s time
      else
        (case swing_times s of
           [] \<Rightarrow> Inl IndexError
         | t0 # ts \<Rightarrow> Inr (0, schedule_next s time L (t0 - time))))"

text \<open>\<^verbatim>\<open>execute_rotation\<close>. It returns the damage done by the action.\<close>

definition execute_rotation ::
  "'x Externals \<Rightarrow> 'x Simulation \<Rightarrow> real \<Rightarrow> py_error + (real \<times> 'x Simulation)" where
  "execute_rotation X s time =
     (if ready_to_shift (player s) then
        (let s1 = snd (call_player (player_shift X time False) s);
             s2 = (if mana (player s1) < 0 \<and> (time_to_oom s1 = None \<or> time_to_oom s1 = Some 0)
                   then s1\<lparr>time_to_oom := Some time\<rparr> else s1);
             swing_fac = (if cat_form (player s2) then 1 / 2.5 else 2.5)
         in
         case swing_times s2 of
           [] \<Rightarrow> Inl IndexError
         | t0 # ts \<Rightarrow>
             bind_e (update_swing_times s2 t0 (swing_timer s2 * swing_fac) True)
               (\<lambda>s3. Inr (0, s3)))
      else
        bind_e (compute_locals X s time) (\<lambda>L.
        (let p = player s; energy' = energy p; mangle_cost' = mangle_cost p in
         if \<not> cat_form p then bear_rotation X s time L
         else if emergency_bearweave L then
           Inr (0, schedule_next (s\<lparr>player := p\<lparr>ready_to_shift := True\<rparr>\<rparr>) time L 0)
         else if berserk_now L then Inr (0, apply_berserk X s time False)
         else if roar_now L then
           (if energy' \<ge> roar_cost p then
              (case call_player (player_roar X time) s of
                 (new_end, s1) \<Rightarrow> Inr (0, s1\<lparr>roar_end := new_end\<rparr>))
            else Inr (0, schedule_next s time L ((roar_cost p - energy') / 10)))
         else if rip_now L then
           (if energy' \<ge> rip_cost p \<or> omen_proc p then Inr (rip X s time)
            else Inr (0, schedule_next s time L ((rip_cost p - energy') / 10)))
         else if bite_now L then
           (if energy' \<ge> bite_cost p then Inr (call_player (player_bite X) s)
            else Inr (0, schedule_next s time L ((bite_cost p - energy') / 10)))
         else if rake_now L then
           (if energy' \<ge> rake_cost p \<or> omen_proc p then Inr (rake X s time)
            else Inr (0, schedule_next s time L ((rake_cost p - energy') / 10)))
         else if mangle_now L then
           (if energy' \<ge> mangle_cost' \<or> omen_proc p then Inr (mangle X s time)
            else Inr (0, schedule_next s time L ((mangle_cost' - energy') / 10)))
         else if bearweave_now L then
           Inr (0, schedule_next (s\<lparr>player := p\<lparr>ready_to_shift := True\<rparr>\<rparr>) time L 0)
         else if mangle_spam (strategy s) \<and> \<not> omen_proc p then
           (if excess_e L \<ge> mangle_cost' then Inr (mangle X s time)
            else Inr (0, schedule_next s time L ((mangle_cost' - excess_e L) / 10)))
         else
           (if excess_e L \<ge> shred_cost p \<or> omen_proc p then Inr (shred X s)
            else Inr (0, schedule_next s time L ((shred_cost p - excess_e L) / 10))))))"

section \<open>The main loop\<close>

subsection \<open>Trinkets, the debuff controller and the trackers\<close>

text \<open>\<^verbatim>\<open>ArmorDebuffs.reset\<close> and \<^verbatim>\<open>ArmorDebuffs.update\<close>. The controller shares the
  dictionary \<^verbatim>\<open>params\<close> with the simulation.\<close>

definition debuff_reset :: "'x Simulation \<Rightarrow> 'x Simulation" where
  "debuff_reset s = s\<lparr>params := (params s)\<lparr>sunder := 0\<rparr>\<rparr>"

definition debuff_update :: "'x Externals \<Rightarrow> 'x Simulation \<Rightarrow> real \<Rightarrow> 'x Simulation" where
  "debuff_update X s time =
     (if use_sunder s \<and> sunder (params s) < 5
         \<and> time \<ge> 1.5 * real_of_int (sunder (params s)) then
        (let s1 = s\<lparr>params := (params s)\<lparr>sunder := sunder (params s) + 1\<rparr>\<rparr>;
             s2 = log_event s1 time ''Sunder Armor'' (Text ''applied'')
         in snd (call_player (calc_damage_params X (params s2)) s2))
      else s)"

text \<open>The loop \<^verbatim>\<open>for trinket in self.trinkets: dmg_done += trinket.update(..)\<close>: the
  trinkets of the constructor's list first, then the controller and the two trackers,
  whose \<^verbatim>\<open>update\<close> returns \<open>0.0\<close>.\<close>

fun update_ext_trinkets ::
  "'x Externals \<Rightarrow> real \<Rightarrow> nat list \<Rightarrow> real \<times> 'x Simulation \<Rightarrow> real \<times> 'x Simulation" where
  "update_ext_trinkets X time [] acc = acc"
| "update_ext_trinkets X time (trinket # rest) (dmg, s) =
     (case trinket_update X trinket time s of
        (bonus, s1) \<Rightarrow> update_ext_trinkets X time rest (dmg + bonus, s1))"

definition update_trinkets ::
  "'x Externals \<Rightarrow> 'x Simulation \<Rightarrow> real \<Rightarrow> py_error + (real \<times> 'x Simulation)" where
  "update_trinkets X s time =
     (case update_ext_trinkets X time (trinkets s) (0, s) of
        (dmg, s1) \<Rightarrow>
          (let s2 = debuff_update X s1 time in
           bind_e (update_tracker (rip_tracker s2) time (player s2) s2) (\<lambda>(d3, tr3).
           (let s3 = s2\<lparr>rip_tracker := tr3\<rparr> in
            bind_e (update_tracker (roar_tracker s3) time (player s3) s3) (\<lambda>(d4, tr4).
              Inr (dmg + 0 + d3 + d4, s3\<lparr>roar_tracker := tr4\<rparr>))))))"

subsection \<open>One pass of the loop\<close>

text \<open>The local variables of \<^verbatim>\<open>run\<close>: the simulation object itself, \<^verbatim>\<open>time\<close> (here
  \<open>now\<close>), \<^verbatim>\<open>previous_time\<close>, \<^verbatim>\<open>num_hot_ticks\<close>, \<^verbatim>\<open>dmg_done\<close> and the four output
  lists.\<close>

record 'x run_state =
  sim :: "'x Simulation"
  now :: real
  previous_time :: real
  num_hot_ticks :: nat
  dmg_done :: real
  times :: "real list"
  damage :: "real list"
  energies :: "real list"
  combos :: "int list"

text \<open>A part of the loop body that works on the simulation object and adds to
  \<^verbatim>\<open>dmg_done\<close>.\<close>

definition on_sim ::
  "('x Simulation \<Rightarrow> py_error + (real \<times> 'x Simulation)) \<Rightarrow> 'x run_state
     \<Rightarrow> py_error + 'x run_state" where
  "on_sim f r =
     bind_e (f (sim r)) (\<lambda>(d, s'). Inr (r\<lparr>sim := s', dmg_done := dmg_done r + d\<rparr>))"

text \<open>Regeneration and cooldowns.\<close>

definition regen_and_cooldowns :: "'x Externals \<Rightarrow> 'x run_state \<Rightarrow> 'x run_state" where
  "regen_and_cooldowns X r =
     (let delta_t = now r - previous_time r;
          s1 = snd (call_player (player_regen X delta_t) (sim r));
          p = player s1;
          p1 = p\<lparr>player_gcd := max 0 (player_gcd p - delta_t),
                 omen_icd := max 0 (omen_icd p - delta_t),
                 rune_cd := max 0 (rune_cd p - delta_t),
                 tf_cd := max 0 (tf_cd p - delta_t),
                 berserk_cd := max 0 (berserk_cd p - delta_t),
                 enrage_cd := max 0 (enrage_cd p - delta_t),
                 mangle_cd := max 0 (mangle_cd p - delta_t)\<rparr>;
          p2 = (if five_second_rule p1 \<and> now r - last_shift p1 \<ge> 5
                then p1\<lparr>five_second_rule := False\<rparr> else p1)
      in r\<lparr>sim := s1\<lparr>player := p2\<rparr>, dmg_done := 0\<rparr>)"

text \<open>Tiger's Fury, Berserk, Mangle and Savage Roar falling off. The Roar entry is
  guarded by the argument \<^verbatim>\<open>log\<close> of \<^verbatim>\<open>run\<close>, the others by \<^verbatim>\<open>self.log\<close>.\<close>

definition roar_falls_off_log :: "bool \<Rightarrow> 'x Simulation \<Rightarrow> 'x Simulation" where
  "roar_falls_off_log log_arg s =
     (if log_arg
      then s\<lparr>combat_log := combat_log s
               @ [gen_log s (roar_end s) ''Savage Roar'' (Text ''falls off'')]\<rparr>
      else s)"

definition expire_buffs ::
  "'x Externals \<Rightarrow> bool \<Rightarrow> real \<Rightarrow> 'x Simulation \<Rightarrow> 'x Simulation" where
  "expire_buffs X log_arg time s =
     (let s1 = (if tigers_fury (params s) \<and> time \<ge> tf_end s
                then drop_tigers_fury X s (tf_end s) else s);
          s2 = (if berserk (player s1) \<and> time \<ge> berserk_end s1
                then drop_berserk X s1 (berserk_end s1) else s1);
          s3 = (case mangle_end s2 of
                  Some m_end \<Rightarrow>
                    if mangle_debuff s2 \<and> time \<ge> m_end
                    then log_event (s2\<lparr>mangle_debuff := False\<rparr>) m_end ''Mangle''
                           (Text ''falls off'')
                    else s2
                | None \<Rightarrow> s2)
      in
      if savage_roar (player s3) \<and> time \<ge> roar_end s3
      then roar_falls_off_log log_arg (s3\<lparr>player := (player s3)\<lparr>savage_roar := False\<rparr>\<rparr>)
      else s3)"

text \<open>The ticks and the expiry of Rip, Rake and Lacerate.\<close>

definition rip_tick_due ::
  "'x Externals \<Rightarrow> real \<Rightarrow> 'x Simulation \<Rightarrow> py_error + (real \<times> 'x Simulation)" where
  "rip_tick_due X time s =
     (if rip_debuff s then
        (case rip_ticks s of
           [] \<Rightarrow> Inl IndexError
         | t0 # ts \<Rightarrow>
             if time \<ge> t0 then
               bind_e (apply_bleed_damage X s (rip_damage s) (rip_crit_chance s) ''Rip''
                         (rip_sr_snapshot s) time)
                 (\<lambda>(d, s1).
                    case rip_ticks s1 of
                      [] \<Rightarrow> Inl IndexError
                    | t1 # rest \<Rightarrow> Inr (d, s1\<lparr>rip_ticks := rest\<rparr>))
             else Inr (0, s))
      else Inr (0, s))"

definition rip_expire :: "real \<Rightarrow> 'x Simulation \<Rightarrow> 'x Simulation" where
  "rip_expire time s =
     (if rip_debuff s \<and> time > rip_end s - 1 / 10 ^ 9
      then log_event (s\<lparr>rip_debuff := False\<rparr>) (rip_end s) ''Rip'' (Text ''falls off'')
      else s)"

definition rake_tick_due ::
  "'x Externals \<Rightarrow> real \<Rightarrow> 'x Simulation \<Rightarrow> py_error + (real \<times> 'x Simulation)" where
  "rake_tick_due X time s =
     (if rake_debuff s then
        (case rake_ticks s of
           [] \<Rightarrow> Inl IndexError
         | t0 # ts \<Rightarrow>
             if time \<ge> t0 then
               bind_e (apply_bleed_damage X s (rake_damage s) 0 ''Rake''
                         (rake_sr_snapshot s) time)
                 (\<lambda>(d, s1).
                    case rake_ticks s1 of
                      [] \<Rightarrow> Inl IndexError
                    | t1 # rest \<Rightarrow> Inr (d, s1\<lparr>rake_ticks := rest\<rparr>))
             else Inr (0, s))
      else Inr (0, s))"

definition rake_expire :: "real \<Rightarrow> 'x Simulation \<Rightarrow> 'x Simulation" where
  "rake_expire time s =
     (if rake_debuff s \<and> time > rake_end s - 1 / 10 ^ 9
      then log_event (s\<lparr>rake_debuff := False\<rparr>) (rake_end s) ''Rake'' (Text ''falls off'')
      else s)"

definition lacerate_tick_due ::
  "'x Externals \<Rightarrow> real \<Rightarrow> 'x Simulation \<Rightarrow> py_error + (real \<times> 'x Simulation)" where
  "lacerate_tick_due X time s =
     (case lacerate_ticks s of
        [] \<Rightarrow> Inr (0, s)
      | t0 # ts \<Rightarrow>
          if lacerate_debuff s \<and> time \<ge> t0 then
            (let s0 = s\<lparr>last_lacerate_tick := Some time\<rparr> in
             bind_e (apply_bleed_damage X s0 (lacerate_damage s0) (lacerate_crit_chance s0)
                       ''Lacerate'' False time)
               (\<lambda>(d, s1).
                  case lacerate_ticks s1 of
                    [] \<Rightarrow> Inl IndexError
                  | t1 # rest \<Rightarrow> Inr (d, s1\<lparr>lacerate_ticks := rest\<rparr>)))
          else Inr (0, s))"

definition lacerate_expire :: "real \<Rightarrow> 'x Simulation \<Rightarrow> 'x Simulation" where
  "lacerate_expire time s =
     (if lacerate_debuff s \<and> time > lacerate_end s - 1 / 10 ^ 9
      then log_event (s\<lparr>lacerate_debuff := False\<rparr>) (lacerate_end s) ''Lacerate''
             (Text ''falls off'')
      else s)"

text \<open>The Revitalize roll.\<close>

definition revitalize :: "'x Externals \<Rightarrow> 'x run_state \<Rightarrow> 'x run_state" where
  "revitalize X r =
     (let s = sim r in
      if now r \<ge> revitalize_frequency s * (real (num_hot_ticks r) + 1) then
        (case np_rand X (ext s) of
           (u, x') \<Rightarrow>
             (let s1 = s\<lparr>ext := x'\<rparr>;
                  p = player s1;
                  s2 = (if u < 0.15 then
                          log_event
                            (s1\<lparr>player :=
                                  (if cat_form p then p\<lparr>energy := min 100 (energy p + 8)\<rparr>
                                   else p\<lparr>rage := min 100 (rage p + 4)\<rparr>)\<rparr>)
                            (now r) ''Revitalize'' (Text ''applied'')
                        else s1)
              in r\<lparr>sim := s2, num_hot_ticks := num_hot_ticks r + 1\<rparr>))
      else r)"

text \<open>Enrage.\<close>

definition use_enrage :: "real \<Rightarrow> 'x Simulation \<Rightarrow> 'x Simulation" where
  "use_enrage time s =
     (let p = player s in
      if \<not> cat_form p \<and> enrage_cd p < 1 / 10 ^ 9 \<and> time < last_shift p + 1.5 + 1 / 10 ^ 9
      then log_event
             (s\<lparr>player := p\<lparr>rage := min 100 (rage p + 20), enrage := True, enrage_cd := 60\<rparr>\<rparr>)
             time ''Enrage'' (Text ''applied'')
      else s)"

text \<open>The Rage threshold for Maul on a swing in Dire Bear Form.\<close>

definition maul_rage_thresh :: "real \<Rightarrow> 'x Simulation \<Rightarrow> real" where
  "maul_rage_thresh time s =
     (let p = player s;
          furor_cap = min (20 * real_of_int (furor p)) 85;
          rip_refresh_pending' = (rip_debuff s \<and> rip_end s < fight_length s - 10);
          energy_leeway = furor_cap - 15 - 10 * (player_gcd p + latency s);
          shift_next = (energy p > energy_leeway
                        \<or> (rip_refresh_pending' \<and> rip_end s < time + player_gcd p + 3));
          lacerate_next =
            (if lacerate_prio (strategy s)
             then \<not> lacerate_debuff s \<or> lacerate_stacks s < 5
                  \<or> lacerate_end s - time \<le> player_gcd p + lacerate_time (strategy s)
             else lacerate_debuff s
                  \<and> (lacerate_stacks s < 5 \<or> lacerate_end s < time + player_gcd p + 4.5));
          emergency_lacerate_next =
            (lacerate_prio (strategy s) \<and> lacerate_debuff s
             \<and> lacerate_end s - time \<le> player_gcd p + 3 + 2 * latency s);
          mangle_next =
            (if lacerate_prio (strategy s)
             then \<not> lacerate_next
                  \<and> (\<not> mangle_debuff s
                     \<or> (case mangle_end s of
                          Some m_end \<Rightarrow> m_end < time + player_gcd p + 3 | None \<Rightarrow> False))
             else mangle_cd p < player_gcd p)
      in
      if emergency_lacerate_next then 23
      else if shift_next then 10
      else if mangle_next then 25
      else if lacerate_next then 23
      else 10)"

text \<open>The melee swing. With logging on, the player's log entry is appended; the
  concatenation raises when the player left no entry.\<close>

definition swing_or_maul :: "'x Externals \<Rightarrow> real \<Rightarrow> 'x Simulation \<Rightarrow> real \<times> 'x Simulation" where
  "swing_or_maul X time s =
     (if cat_form (player s) then call_player (player_swing X) s
      else if rage (player s) \<ge> maul_rage_thresh time s
      then call_player (player_maul X (mangle_debuff s)) s
      else call_player (player_swing X) s)"

definition append_swing_log :: "real \<Rightarrow> 'x Simulation \<Rightarrow> py_error + 'x Simulation" where
  "append_swing_log time s =
     (if sim_log s then
        (case player_combat_log (player s) of
           None \<Rightarrow> Inl TypeError
         | Some entry \<Rightarrow>
             Inr (s\<lparr>combat_log := combat_log s @ [Formatted ''%.3f'' time # entry]\<rparr>))
      else Inr s)"

definition melee_swing ::
  "'x Externals \<Rightarrow> real \<Rightarrow> 'x Simulation \<Rightarrow> py_error + (real \<times> 'x Simulation)" where
  "melee_swing X time s =
     (case swing_times s of
        [] \<Rightarrow> Inl IndexError
      | t0 # ts \<Rightarrow>
          if time = t0 then
            (case swing_or_maul X time s of
               (d, s1) \<Rightarrow>
                 (case swing_times s1 of
                    [] \<Rightarrow> Inl IndexError
                  | t1 # rest \<Rightarrow>
                      bind_e (append_swing_log time (s1\<lparr>swing_times := rest\<rparr>))
                        (\<lambda>s3. Inr (d, if omen_proc (player s3)
                                      then s3\<lparr>next_action := time + latency s3\<rparr>
                                      else s3))))
          else Inr (0, s))"

text \<open>The decision point, and the player's log entry for the action.\<close>

definition append_player_log :: "real \<Rightarrow> 'x Simulation \<Rightarrow> 'x Simulation" where
  "append_player_log time s =
     (case player_combat_log (player s) of
        Some entry \<Rightarrow>
          if sim_log s \<and> entry \<noteq> []
          then s\<lparr>combat_log := combat_log s @ [Formatted ''%.3f'' time # entry]\<rparr>
          else s
      | None \<Rightarrow> s)"

definition decide ::
  "'x Externals \<Rightarrow> real \<Rightarrow> 'x Simulation \<Rightarrow> py_error + (real \<times> 'x Simulation)" where
  "decide X time s =
     (let s0 = s\<lparr>player := (player s)\<lparr>player_combat_log := None\<rparr>\<rparr> in
      bind_e
        (if player_gcd (player s0) < 1 / 10 ^ 9 \<and> time \<ge> next_action s0
         then execute_rotation X s0 time else Inr (0, s0))
        (\<lambda>(d, s1). Inr (d, append_player_log time s1)))"

text \<open>Tiger's Fury drops on entering Dire Bear Form; a finished proc leaves the list;
  Tiger's Fury is cast when energy is low.\<close>

definition drop_tf_in_bear :: "'x Externals \<Rightarrow> real \<Rightarrow> 'x Simulation \<Rightarrow> 'x Simulation" where
  "drop_tf_in_bear X time s =
     (if tigers_fury (params s) \<and> player_gcd (player s) = 1.5
      then drop_tigers_fury X s time else s)"

definition pop_proc_end :: "real \<Rightarrow> 'x Simulation \<Rightarrow> 'x Simulation" where
  "pop_proc_end time s =
     (case proc_end_times s of
        [] \<Rightarrow> s
      | t0 # rest \<Rightarrow> if time = t0 then s\<lparr>proc_end_times := rest\<rparr> else s)"

definition cast_tigers_fury :: "'x Externals \<Rightarrow> real \<Rightarrow> 'x Simulation \<Rightarrow> 'x Simulation" where
  "cast_tigers_fury X time s =
     (let p = player s;
          leeway_time = max (player_gcd p) (latency s);
          tf_energy_thresh = 40 - 10 * (leeway_time + of_bool (omen_proc p));
          tf_now = (energy p < tf_energy_thresh \<and> tf_cd p < 1 / 10 ^ 9 \<and> \<not> berserk p
                    \<and> cat_form p)
      in if tf_now then apply_tigers_fury X s time else s)"

text \<open>The samples are recorded and the clock moves to the next event.\<close>

definition record_and_advance :: "'x run_state \<Rightarrow> py_error + 'x run_state" where
  "record_and_advance r =
     (let s = sim r;
          r1 = r\<lparr>times := times r @ [now r], damage := damage r @ [dmg_done r],
                 energies := energies r @ [energy (player s)],
                 combos := combos r @ [combo_points (player s)],
                 previous_time := now r\<rparr>
      in
      case swing_times s of
        [] \<Rightarrow> Inl IndexError
      | next_swing # ts \<Rightarrow>
          (let next_action' = max (now r + player_gcd (player s)) (next_action s);
               t1 = min next_action' next_swing
           in
           bind_e (if rip_debuff s
                   then (case rip_ticks s of [] \<Rightarrow> Inl IndexError | t # ts' \<Rightarrow> Inr (min t1 t))
                   else Inr t1) (\<lambda>t2.
           bind_e (if rake_debuff s
                   then (case rake_ticks s of [] \<Rightarrow> Inl IndexError | t # ts' \<Rightarrow> Inr (min t2 t))
                   else Inr t2) (\<lambda>t3.
           (let t4 = (case lacerate_ticks s of
                        [] \<Rightarrow> t3 | t # ts' \<Rightarrow> if lacerate_debuff s then min t3 t else t3);
                t5 = (case proc_end_times s of [] \<Rightarrow> t4 | t # ts' \<Rightarrow> min t4 t)
            in Inr (r1\<lparr>now := t5\<rparr>))))))"

text \<open>The body of the \<^verbatim>\<open>while\<close> loop.\<close>

definition loop_body :: "'x Externals \<Rightarrow> bool \<Rightarrow> 'x run_state \<Rightarrow> py_error + 'x run_state" where
  "loop_body X log_arg r0 =
     (let r1 = regen_and_cooldowns X r0;
          time = now r1;
          r2 = r1\<lparr>sim := expire_buffs X log_arg time (sim r1)\<rparr>
      in
      bind_e (on_sim (rip_tick_due X time) r2) (\<lambda>r3.
      bind_e (on_sim (rake_tick_due X time) (r3\<lparr>sim := rip_expire time (sim r3)\<rparr>)) (\<lambda>r4.
      bind_e (on_sim (lacerate_tick_due X time) (r4\<lparr>sim := rake_expire time (sim r4)\<rparr>)) (\<lambda>r5.
      (let r6 = revitalize X (r5\<lparr>sim := lacerate_expire time (sim r5)\<rparr>) in
       bind_e (on_sim (\<lambda>s. update_trinkets X s time) r6) (\<lambda>r7.
       bind_e (on_sim (melee_swing X time) (r7\<lparr>sim := use_enrage time (sim r7)\<rparr>)) (\<lambda>r8.
       bind_e (on_sim (decide X time) r8) (\<lambda>r9.
       bind_e (on_sim (\<lambda>s. update_trinkets X s time)
                 (r9\<lparr>sim := drop_tf_in_bear X time (sim r9)\<rparr>)) (\<lambda>r10.
       record_and_advance
         (r10\<lparr>sim := cast_tigers_fury X time (pop_proc_end time (sim r10))\<rparr>))))))))))"

text \<open>The \<^verbatim>\<open>while\<close> loop, with a bound on the number of passes: \<open>None\<close> when the bound is
  reached before the clock passes the fight length.\<close>

fun run_loop ::
  "'x Externals \<Rightarrow> bool \<Rightarrow> nat \<Rightarrow> 'x run_state \<Rightarrow> (py_error + 'x run_state) option" where
  "run_loop X log_arg 0 r =
     (if now r \<le> fight_length (sim r) then None else Some (Inr r))"
| "run_loop X log_arg (Suc fuel) r =
     (if now r \<le> fight_length (sim r) then
        (case loop_body X log_arg r of
           Inl e \<Rightarrow> Some (Inl e)
         | Inr r' \<Rightarrow> run_loop X log_arg fuel r')
      else Some (Inr r))"

subsection \<open>Before and after the loop\<close>

text \<open>The start of \<^verbatim>\<open>run\<close>: the player and the debuff flags are reset and logging is
  configured; then the swing timer, the trinkets and the pre-fight buffs are set up.\<close>

definition run_reset :: "'x Externals \<Rightarrow> bool \<Rightarrow> 'x Simulation \<Rightarrow> 'x Simulation" where
  "run_reset X log_arg s =
     (let s1 = snd (call_player (player_reset X) s);
          s2 = s1\<lparr>mangle_debuff := False, rip_debuff := False, rake_debuff := False,
                  lacerate_debuff := False, params := (params s1)\<lparr>tigers_fury := False\<rparr>,
                  next_action := 0, sim_log := log_arg\<rparr>
      in
      if sim_log s2
      then s2\<lparr>player := (player s2)\<lparr>player_log := True\<rparr>, combat_log := []\<rparr>
      else s2\<lparr>player := (player s2)\<lparr>player_log := False\<rparr>\<rparr>)"

definition run_prepare :: "'x Externals \<Rightarrow> 'x Simulation \<Rightarrow> py_error + 'x Simulation" where
  "run_prepare X s3 =
     (case np_rand X (ext s3) of
        (u, x') \<Rightarrow>
          bind_e (update_swing_times (s3\<lparr>ext := x'\<rparr>) (0.1 * u)
                    (player_swing_timer (player s3)) True) (\<lambda>s4.
          (let s5 = s4\<lparr>proc_end_times := []\<rparr>;
               s6 = s5\<lparr>ext := fold (trinket_reset X) (trinkets s5) (ext s5)\<rparr>;
               s7 = debuff_reset s6;
               s8 = s7\<lparr>rip_tracker := reset_tracker (rip_tracker s7),
                       roar_tracker := reset_tracker (roar_tracker s7)\<rparr>;
               s9 = (if bear_mangle (strategy s8)
                     then s8\<lparr>mangle_debuff := True, mangle_end := None\<rparr> else s8);
               s10 = (if use_berserk (strategy s9) \<and> prepop_berserk (strategy s9)
                      then apply_berserk X s9 (- 1) True else s9);
               s11 = (if preproc_omen (strategy s10) \<and> omen (player s10)
                      then s10\<lparr>player := (player s10)\<lparr>omen_proc := True\<rparr>\<rparr> else s10)
           in Inr (s11\<lparr>time_to_oom := None\<rparr>))))"

definition run_setup :: "'x Externals \<Rightarrow> bool \<Rightarrow> 'x Simulation \<Rightarrow> py_error + 'x Simulation" where
  "run_setup X log_arg s = run_prepare X (run_reset X log_arg s)"

type_synonym aura_stats = "(string \<times> real \<times> real) list"

text \<open>The final loop over the trinkets: a last \<^verbatim>\<open>update\<close> at the fight length, then the
  row of aura statistics, skipped for a trinket that lacks the attributes.\<close>

fun finish_ext_trinkets ::
  "'x Externals \<Rightarrow> nat list \<Rightarrow> aura_stats \<times> 'x Simulation \<Rightarrow> aura_stats \<times> 'x Simulation" where
  "finish_ext_trinkets X [] acc = acc"
| "finish_ext_trinkets X (trinket # rest) (stats, s) =
     (let s1 = snd (trinket_update X trinket (fight_length s) s) in
      case trinket_active X trinket (ext s1) of
        None \<Rightarrow> finish_ext_trinkets X rest (stats, s1)
      | Some is_on \<Rightarrow>
          (let s2 = (if is_on then trinket_deactivate X trinket (fight_length s1) s1 else s1) in
           case trinket_report X trinket (ext s2) of
             None \<Rightarrow> finish_ext_trinkets X rest (stats, s2)
           | Some row \<Rightarrow> finish_ext_trinkets X rest (stats @ [row], s2)))"

definition finish_tracker ::
  "UptimeTracker \<Rightarrow> 'x Simulation \<Rightarrow> py_error + (UptimeTracker \<times> (string \<times> real \<times> real) list)" where
  "finish_tracker tr s =
     bind_e (update_tracker tr (fight_length s) (player s) s) (\<lambda>(d, tr1).
       (let tr2 = (if active tr1 then tr1\<lparr>active := False\<rparr> else tr1) in
        Inr (tr2,
          (case tracker_cls tr2 of
             UptimeTracker_base \<Rightarrow> []
           | RipTracker \<Rightarrow> [(''Rip'', real (num_procs tr2), uptime tr2)]
           | RoarTracker \<Rightarrow> [(''Savage Roar'', real (num_procs tr2), uptime tr2)]))))"

definition run_finish ::
  "'x Externals \<Rightarrow> 'x Simulation \<Rightarrow> py_error + (aura_stats \<times> 'x Simulation)" where
  "run_finish X s =
     (case finish_ext_trinkets X (trinkets s) ([], s) of
        (stats1, s1) \<Rightarrow>
          (let s2 = debuff_update X s1 (fight_length s1) in
           bind_e (finish_tracker (rip_tracker s2) s2) (\<lambda>(tr3, rows3).
           (let s3 = s2\<lparr>rip_tracker := tr3\<rparr> in
            bind_e (finish_tracker (roar_tracker s3) s3) (\<lambda>(tr4, rows4).
              Inr (stats1 @ rows3 @ rows4, s3\<lparr>roar_tracker := tr4\<rparr>))))))"

text \<open>What \<^verbatim>\<open>run\<close> returns; the combat log is part of the output only with logging on.\<close>

record run_output =
  out_times :: "real list"
  out_damage :: "real list"
  out_energy :: "real list"
  out_combos :: "int list"
  out_breakdown :: breakdown
  out_aura_stats :: aura_stats
  out_combat_log :: "log_field list list option"

text \<open>\<^verbatim>\<open>Simulation.run\<close>.\<close>

definition run ::
  "'x Externals \<Rightarrow> nat \<Rightarrow> 'x Simulation \<Rightarrow> bool
     \<Rightarrow> (py_error + (run_output \<times> 'x Simulation)) option" where
  "run X fuel s log_arg =
     (case run_setup X log_arg s of
        Inl e \<Rightarrow> Some (Inl e)
      | Inr s0 \<Rightarrow>
          (case run_loop X log_arg fuel
                  \<lparr>sim = s0, now = 0, previous_time = 0, num_hot_ticks = 0, dmg_done = 0,
                   times = [], damage = [], energies = [], combos = []\<rparr> of
             None \<Rightarrow> None
           | Some (Inl e) \<Rightarrow> Some (Inl e)
           | Some (Inr r) \<Rightarrow>
               Some (bind_e (run_finish X (sim r)) (\<lambda>(stats, s1).
                 Inr (\<lparr>out_times = times r, out_damage = damage r, out_energy = energies r,
                       out_combos = combos r, out_breakdown = dmg_breakdown (player s1),
                       out_aura_stats = stats,
                       out_combat_log = (if sim_log s1 then Some (combat_log s1) else None)\<rparr>,
                      s1)))))"

subsection \<open>One replicate\<close>

text \<open>\<^verbatim>\<open>Simulation.iterate\<close>. Its arguments (the pool hands it the replicate's index) are
  not used; \<^verbatim>\<open>np.random.seed()\<close> is called without a seed, so the generator is set from
  the entropy of the call. The average DPS is \<open>None\<close> where numpy's division by a zero
  fight length yields \<^verbatim>\<open>inf\<close> or \<^verbatim>\<open>nan\<close>.\<close>

definition iterate ::
  "'x Externals \<Rightarrow> nat \<Rightarrow> 'x Simulation \<Rightarrow> nat list \<Rightarrow> nat
     \<Rightarrow> (py_error + ((real option \<times> breakdown \<times> aura_stats \<times> real) \<times> 'x Simulation)) option" where
  "iterate X fuel s args entropy =
     (let s1 = s\<lparr>ext := np_seed X entropy (ext s)\<rparr>;
          base_fight_length = fight_length s1
      in
      case np_randn X (ext s1) of
        (z, x') \<Rightarrow>
          (let randomized_fight_length = base_fight_length + z;
               s2 = s1\<lparr>ext := x', fight_length := randomized_fight_length\<rparr>
           in
           case run X fuel s2 False of
             None \<Rightarrow> None
           | Some (Inl e) \<Rightarrow> Some (Inl e)
           | Some (Inr (out, s3)) \<Rightarrow>
               (let avg_dps = (if fight_length s3 = 0 then None
                               else Some (sum_list (out_damage out) / fight_length s3));
                    s4 = s3\<lparr>fight_length := base_fight_length\<rparr>;
                    oom_time = (case time_to_oom s4 of
                                  None \<Rightarrow> randomized_fight_length
                                | Some t \<Rightarrow> t)
                in Some (Inr ((avg_dps, out_breakdown out, out_aura_stats out, oom_time),
                              s4)))))"

section \<open>Replicates and their consolidation\<close>

text \<open>What one replicate (\<^verbatim>\<open>Simulation.iterate\<close>) returns: the average DPS, the damage
  breakdown, the aura statistics (rows \<^verbatim>\<open>[proc_name, num_procs, uptime]\<close>) and the time
  of running out of mana.\<close>

type_synonym replicate_output = "real \<times> breakdown \<times> aura_stats \<times> real"













section \<open>Stat increments\<close>

text \<open>\<^verbatim>\<open>calc_deriv\<close> reaches the player's attributes by name (\<^verbatim>\<open>getattr\<close>, \<^verbatim>\<open>setattr\<close>),
  so here the player is its attribute dictionary; a missing attribute is an
  \<^verbatim>\<open>AttributeError\<close>.\<close>

type_synonym attrs = "string \<rightharpoonup> real"

definition add_attr :: "attrs \<Rightarrow> string \<Rightarrow> real \<Rightarrow> py_error + attrs" where
  "add_attr pl name delta =
     (case pl name of None \<Rightarrow> Inl AttributeError | Some v \<Rightarrow> Inr (pl(name \<mapsto> v + delta)))"




section \<open>The specification's side of the comparisons\<close>


fun out_breakdown :: "replicate_output \<Rightarrow> breakdown" where
  "out_breakdown (avg_dps, dmg, stats, oom_time) = dmg"










section \<open>States that differ in logging only\<close>

text \<open>\<open>unlog\<close> forgets what logging adds to a state: the two flags and the two logs.
  \<open>R s t\<close> relates the state \<open>s\<close> of a run with logging to the state \<open>t\<close> of a run
  without: the flags are on in \<open>s\<close> and off in \<open>t\<close>, and nothing else differs but the
  logs. \<open>Rp\<close> is the same for the player, \<open>Rr\<close> for the local variables of \<^verbatim>\<open>run\<close>.\<close>

definition unlog_player :: "Player \<Rightarrow> Player" where
  "unlog_player p = p\<lparr>player_log := False, player_combat_log := None\<rparr>"

definition Rp :: "Player \<Rightarrow> Player \<Rightarrow> bool" where
  "Rp p q \<longleftrightarrow> player_log p \<and> \<not> player_log q \<and> unlog_player p = unlog_player q"

definition unlog :: "'x Simulation \<Rightarrow> 'x Simulation" where
  "unlog s = s\<lparr>sim_log := False, combat_log := [], player := unlog_player (player s)\<rparr>"

definition R :: "'x Simulation \<Rightarrow> 'x Simulation \<Rightarrow> bool" where
  "R s t \<longleftrightarrow> sim_log s \<and> \<not> sim_log t \<and> player_log (player s) \<and> \<not> player_log (player t)
     \<and> unlog s = unlog t"

definition Rr :: "'x run_state \<Rightarrow> 'x run_state \<Rightarrow> bool" where
  "Rr r r' \<longleftrightarrow> R (sim r) (sim r') \<and> r\<lparr>sim := sim r'\<rparr> = r'"

text \<open>What is asked of the collaborators for logging to be an observation only: run on
  a logging and on a non-logging player (or simulation) that do not differ otherwise,
  a method returns the same values and the same external state, and leaves a logging
  and a non-logging player (or simulation) that do not differ otherwise; a swing or a
  Maul of a logging player leaves a log entry.\<close>

definition player_method_ok :: "(Player \<Rightarrow> 'x \<Rightarrow> 'r \<times> Player \<times> 'x) \<Rightarrow> bool" where
  "player_method_ok m \<longleftrightarrow> rel_fun Rp (rel_fun (=) (rel_prod (=) (rel_prod Rp (=)))) m m"

definition leaves_log_entry :: "(Player \<Rightarrow> 'x \<Rightarrow> real \<times> Player \<times> 'x) \<Rightarrow> bool" where
  "leaves_log_entry m \<longleftrightarrow>
     (\<forall>p x. player_log p \<longrightarrow> player_combat_log (fst (snd (m p x))) \<noteq> None)"

definition log_oblivious :: "'x Externals \<Rightarrow> bool" where
  "log_oblivious X \<longleftrightarrow>
     player_method_ok (player_mangle X) \<and> player_method_ok (player_rip X)
     \<and> player_method_ok (player_bite X) \<and> player_method_ok (player_swing X)
     \<and> player_method_ok (set_ability_costs X)
     \<and> (\<forall>b. player_method_ok (player_rake X b) \<and> player_method_ok (player_lacerate X b)
            \<and> player_method_ok (player_shred X b) \<and> player_method_ok (player_maul X b))
     \<and> (\<forall>time. player_method_ok (player_roar X time) \<and> player_method_ok (player_regen X time))
     \<and> (\<forall>time b. player_method_ok (player_shift X time b))
     \<and> (\<forall>prm. player_method_ok (calc_damage_params X prm))
     \<and> rel_fun Rp (rel_fun (=) (=)) (calc_crit_multiplier X) (calc_crit_multiplier X)
     \<and> (\<forall>tr time. rel_fun R (rel_prod (=) R) (trinket_update X tr time) (trinket_update X tr time)
            \<and> rel_fun R R (trinket_deactivate X tr time) (trinket_deactivate X tr time))
     \<and> leaves_log_entry (player_swing X) \<and> (\<forall>b. leaves_log_entry (player_maul X b))"

text \<open>What \<^verbatim>\<open>run\<close> returns, the combat log left out.\<close>

definition without_log ::
  "(py_error + (run_output \<times> 'x Simulation)) option \<Rightarrow> (py_error + run_output) option" where
  "without_log res =
     map_option (map_sum id (\<lambda>(out, s'). out\<lparr>out_combat_log := None\<rparr>)) res"

section \<open>Concrete states\<close>

text \<open>The class attributes \<^verbatim>\<open>default_strategy\<close> and \<^verbatim>\<open>default_params\<close>; the key
  \<^verbatim>\<open>tigers_fury\<close> is added by \<^verbatim>\<open>run\<close>.\<close>

definition default_strategy :: Strategy where
  "default_strategy = \<lparr>
     min_combos_for_rip = 5, use_rake = False, use_bite = True, bite_time = Some 8,
     min_combos_for_bite = 5, mangle_spam = False, bear_mangle = False, use_berserk = False,
     prepop_berserk = False, preproc_omen = False, bearweave = False,
     berserk_bite_thresh = 100, lacerate_prio = False, lacerate_time = 10,
     powerbear = False, min_roar_offset = 10\<rparr>"

definition default_params :: Params where
  "default_params = \<lparr>
     gift_of_arthas = True, boss_armor = 3731, sunder = 0, faerie_fire = True,
     blood_frenzy = False, shattering_throw = False, tigers_fury = False\<rparr>"

text \<open>A player with five-point finisher tables and a fight state thirteen seconds in:
  Rip cast at 10 with its base duration of 12, Savage Roar up until 20, two stacks of
  Lacerate whose last tick went out at 12.\<close>

definition example_player :: Player where
  "example_player = \<lparr>
     energy = 60, combo_points = 3, mana = 5000, rage = 0,
     savage_roar = True, berserk = False, omen = True, omen_proc = False, cat_form = True,
     ready_to_shift = False, enrage = False, five_second_rule = False, shred_glyph = True,
     berserk_glyph = False, primal_gore = True,
     player_gcd = 0, omen_icd = 0, rune_cd = 0, tf_cd = 0, berserk_cd = 0, enrage_cd = 0,
     mangle_cd = 0, last_shift = 0, furor = 3,
     crit_chance = 1 / 2, miss_chance = 0, attack_power = 8000, rip_duration = 12,
     rake_tick = 400, rake_hit = 500, lacerate_tick = 100, shred_low = 1800, shred_high = 2200,
     bite_multiplier = 1, roar_fac = 3 / 10,
     bite_low = [1 \<mapsto> 500, 2 \<mapsto> 800, 3 \<mapsto> 1100, 4 \<mapsto> 1400, 5 \<mapsto> 1700],
     bite_high = [1 \<mapsto> 600, 2 \<mapsto> 900, 3 \<mapsto> 1200, 4 \<mapsto> 1500, 5 \<mapsto> 1800],
     rip_tick = [1 \<mapsto> 300, 2 \<mapsto> 500, 3 \<mapsto> 700, 4 \<mapsto> 900, 5 \<mapsto> 1100],
     roar_durations = [1 \<mapsto> 14, 2 \<mapsto> 19, 3 \<mapsto> 24, 4 \<mapsto> 29, 5 \<mapsto> 34],
     mangle_cost = 35, base_mangle_cost = 35, roar_cost = 25, rip_cost = 30, bite_cost = 35,
     rake_cost = 35, shred_cost = 42, player_swing_timer = 1,
     dmg_breakdown = [(''Shred'', [(''casts'', 0), (''damage'', 0)]),
                      (''Rip'', [(''casts'', 1), (''damage'', 0)]),
                      (''Savage Roar'', [(''casts'', 1), (''damage'', 0)])],
     proc_trinkets = [], player_log = False, player_combat_log = None\<rparr>"

definition example_sim :: "unit Simulation" where
  "example_sim = \<lparr>
     player = example_player, ext = (), fight_length = 180, latency = 1 / 10,
     params = default_params, strategy = default_strategy, trinkets = [], use_sunder = False,
     rip_tracker = new_tracker RipTracker, roar_tracker = new_tracker RoarTracker,
     haste_multiplier = 1, revitalize_frequency = 1875000000,
     mangle_debuff = True, mangle_end = Some 60,
     rake_debuff = False, rake_end = 0, rake_ticks = [], rake_damage = 0,
     rake_sr_snapshot = False,
     lacerate_debuff = True, lacerate_end = 16, lacerate_ticks = [], lacerate_stacks = 2,
     lacerate_damage = 200, lacerate_crit_chance = 0, last_lacerate_tick = Some 12,
     rip_debuff = True, rip_start = 10, rip_end = 22, rip_ticks = [14, 16, 18, 20, 22],
     rip_damage = 1100, rip_crit_chance = 1 / 2, rip_sr_snapshot = True,
     berserk_end = 0, tf_end = 0, roar_end = 20, swing_timer = 1, swing_times = [13, 14],
     next_action = 13, time_to_oom = None, proc_end_times = [],
     sim_log = False, combat_log = []\<rparr>"

definition example_externals :: "'x Externals" where
  "example_externals = \<lparr>
     player_mangle = (\<lambda>p x.
       ((1500, True), p\<lparr>energy := energy p - mangle_cost p, player_gcd := 1,
         player_combat_log :=
           (if player_log p then Some [Text ''mangle'', Formatted ''%d'' 1500] else None)\<rparr>, x)),
     player_rake = (\<lambda>md p x.
       ((500, True), p\<lparr>energy := energy p - rake_cost p, player_gcd := 1\<rparr>, x)),
     player_lacerate = (\<lambda>md p x. ((300, True), p\<lparr>rage := rage p - 13, player_gcd := 3 / 2\<rparr>, x)),
     player_rip = (\<lambda>p x.
       ((1100, True), p\<lparr>energy := energy p - rip_cost p, combo_points := 0,
                         player_gcd := 1\<rparr>, x)),
     player_shred = (\<lambda>md p x.
       ((2000, True), p\<lparr>energy := energy p - shred_cost p,
                         combo_points := min 5 (combo_points p + 1), player_gcd := 1\<rparr>, x)),
     player_bite = (\<lambda>p x. (3000, p\<lparr>energy := 0, combo_points := 0, player_gcd := 1\<rparr>, x)),
     player_roar = (\<lambda>time p x.
       (time + 34, p\<lparr>energy := energy p - roar_cost p, combo_points := 0,
                       savage_roar := True, player_gcd := 1\<rparr>, x)),
     player_shift = (\<lambda>time powershift p x.
       ((), p\<lparr>cat_form := \<not> cat_form p, ready_to_shift := False, last_shift := time,
               player_gcd := 3 / 2\<rparr>, x)),
     player_swing = (\<lambda>p x.
       (800, p\<lparr>player_combat_log :=
                   (if player_log p then Some [Text ''melee'', Formatted ''%d'' 800] else None)\<rparr>, x)),
     player_maul = (\<lambda>md p x.
       (1200, p\<lparr>rage := rage p - 10, player_combat_log :=
                   (if player_log p then Some [Text ''maul'', Formatted ''%d'' 1200] else None)\<rparr>, x)),
     player_regen = (\<lambda>delta_t p x. ((), p\<lparr>energy := min 100 (energy p + 10 * delta_t)\<rparr>, x)),
     player_reset = (\<lambda>p x. ((), p\<lparr>energy := 100, combo_points := 0, savage_roar := False,
       berserk := False, omen_proc := False, cat_form := True, ready_to_shift := False,
       player_gcd := 0, player_combat_log := None\<rparr>, x)),
     set_ability_costs = (\<lambda>p x. ((), p, x)),
     calc_damage_params = (\<lambda>prm p x. ((), p, x)),
     calc_crit_multiplier = (\<lambda>p x. 2),
     calc_yellow_damage = (\<lambda>low high miss crit mult x. (low, x)),
     np_rand = (\<lambda>x. (1 / 2, x)),
     np_randn = (\<lambda>x. (0, x)),
     np_seed = (\<lambda>entropy x. x),
     trinket_reset = (\<lambda>tr x. x),
     trinket_update = (\<lambda>tr time s. (0, s)),
     trinket_periodic_only = (\<lambda>tr x. False),
     trinket_check_for_proc = (\<lambda>tr a b x. x),
     trinket_active = (\<lambda>tr x. None),
     trinket_deactivate = (\<lambda>tr time s. s),
     trinket_report = (\<lambda>tr x. None)\<rparr>"






text \<open>A generator whose state is a number: seeding stores the entropy, and the normal
  draw is a hundredth of the state. A fight of a twentieth of a second for it.\<close>

definition seeded_externals :: "nat Externals" where
  "seeded_externals = example_externals\<lparr>
     np_seed := (\<lambda>entropy x. entropy),
     np_randn := (\<lambda>x. (real x / 100, Suc x)),
     np_rand := (\<lambda>x. (9 / 10, Suc x))\<rparr>"

definition short_fight :: "nat Simulation" where
  "short_fight = \<lparr>
     player = example_player, ext = 0, fight_length = 1 / 20, latency = 1 / 10,
     params = default_params, strategy = default_strategy, trinkets = [], use_sunder = False,
     rip_tracker = new_tracker RipTracker, roar_tracker = new_tracker RoarTracker,
     haste_multiplier = 1, revitalize_frequency = 1875000000,
     mangle_debuff = False, mangle_end = None,
     rake_debuff = False, rake_end = 0, rake_ticks = [], rake_damage = 0,
     rake_sr_snapshot = False,
     lacerate_debuff = False, lacerate_end = 0, lacerate_ticks = [], lacerate_stacks = 0,
     lacerate_damage = 0, lacerate_crit_chance = 0, last_lacerate_tick = None,
     rip_debuff = False, rip_start = 0, rip_end = 0, rip_ticks = [],
     rip_damage = 0, rip_crit_chance = 0, rip_sr_snapshot = False,
     berserk_end = 0, tf_end = 0, roar_end = 0, swing_timer = 1, swing_times = [],
     next_action = 0, time_to_oom = None, proc_end_times = [],
     sim_log = False, combat_log = []\<rparr>"

section \<open>Properties of the uptime trackers\<close>

lemma update_tracker_inv:
  assumes "update_tracker tr time p s = Inr (d, tr')"
    and "15 \<le> last_update tr" "0 \<le> uptime tr" "uptime tr \<le> 1"
  shows "15 \<le> last_update tr' \<and> 0 \<le> uptime tr' \<and> uptime tr' \<le> 1
         \<and> tracker_cls tr' = tracker_cls tr"
proof (cases "time > last_update tr \<and> time < fight_length s - 15")
  case False
  with assms show ?thesis by (auto simp: update_tracker_def)
next
  case True
  then have pos: "0 < time - 15" using assms(2) by linarith
  from assms(1) True obtain a where a: "is_active (tracker_cls tr) p s = PyBool a"
    by (auto simp: update_tracker_def Let_def split: py_value.splits)
  with assms(1) True have tr': "tr' = tr\<lparr>
               uptime := (uptime tr * (last_update tr - 15) + (time - last_update tr) * of_bool a)
                          / (time - 15),
               last_update := time,
               num_procs := (if a \<and> \<not> active tr then num_procs tr + 1
                             else num_procs tr),
               active := a\<rparr>"
    by (auto simp: update_tracker_def Let_def split: py_value.splits if_splits)
  have n0: "0 \<le> uptime tr * (last_update tr - 15) + (time - last_update tr) * of_bool a"
    using assms True by (auto intro!: add_nonneg_nonneg mult_nonneg_nonneg)
  have "uptime tr * (last_update tr - 15) \<le> 1 * (last_update tr - 15)"
    using assms by (intro mult_right_mono) auto
  then have "uptime tr * (last_update tr - 15) \<le> last_update tr - 15" by simp
  moreover have "(time - last_update tr) * of_bool a \<le> (time - last_update tr)"
    using True by auto
  ultimately have n1:
    "uptime tr * (last_update tr - 15) + (time - last_update tr) * of_bool a \<le> time - 15"
    by linarith
  show ?thesis using n0 n1 pos True assms(2) by (simp add: tr')
qed

lemma update_tracker_returns:
  assumes "tracker_cls tr \<noteq> UptimeTracker_base" and "15 \<le> last_update tr"
  shows "\<exists>tr'. update_tracker tr time p s = Inr (0, tr')"
  using assms by (cases "tracker_cls tr") (auto simp: update_tracker_def Let_def)

lemma update_tracker_inactive:
  assumes "update_tracker tr time p s = Inr (d, tr')"
    and "uptime tr = 0" "num_procs tr = 0" "15 \<le> last_update tr"
    and "15 < time \<and> time < fight_length s - 15 \<longrightarrow> is_active (tracker_cls tr) p s = PyBool False"
  shows "uptime tr' = 0 \<and> num_procs tr' = 0"
  using assms by (auto simp: update_tracker_def Let_def split: if_splits py_value.splits)

lemma update_all_inv:
  assumes "tracker_cls tr \<noteq> UptimeTracker_base"
    and "15 \<le> last_update tr" "0 \<le> uptime tr" "uptime tr \<le> 1"
  shows "\<exists>tr'. update_all tr calls = Inr tr' \<and> 0 \<le> uptime tr' \<and> uptime tr' \<le> 1 \<and>
           (uptime tr = 0 \<and> num_procs tr = 0 \<and>
            (\<forall>(time, p, s) \<in> set calls. 15 < time \<and> time < fight_length s - 15
                \<longrightarrow> is_active (tracker_cls tr) p s = PyBool False)
            \<longrightarrow> uptime tr' = 0 \<and> num_procs tr' = 0)"
  using assms
proof (induction calls arbitrary: tr)
  case Nil
  then show ?case by simp
next
  case (Cons c calls)
  obtain time p s where c: "c = (time, p, s)" by (cases c)
  from update_tracker_returns[OF Cons.prems(1,2)] obtain tr1
    where step: "update_tracker tr time p s = Inr (0, tr1)" by blast
  from update_tracker_inv[OF step Cons.prems(2,3,4)]
  have inv1: "15 \<le> last_update tr1" "0 \<le> uptime tr1" "uptime tr1 \<le> 1"
    and cls: "tracker_cls tr1 = tracker_cls tr" by auto
  have "tracker_cls tr1 \<noteq> UptimeTracker_base" using cls Cons.prems(1) by simp
  from Cons.IH[OF this inv1] obtain tr' where
    rest: "update_all tr1 calls = Inr tr'" "0 \<le> uptime tr'" "uptime tr' \<le> 1"
      "uptime tr1 = 0 \<and> num_procs tr1 = 0 \<and>
            (\<forall>(time, p, s) \<in> set calls. 15 < time \<and> time < fight_length s - 15
                \<longrightarrow> is_active (tracker_cls tr1) p s = PyBool False)
            \<longrightarrow> uptime tr' = 0 \<and> num_procs tr' = 0"
    by blast
  have "update_all tr (c # calls) = Inr tr'" using step rest(1) c by simp
  moreover have "uptime tr' = 0 \<and> num_procs tr' = 0"
    if h: "uptime tr = 0" "num_procs tr = 0"
       "\<forall>(time, p, s) \<in> set (c # calls). 15 < time \<and> time < fight_length s - 15
                \<longrightarrow> is_active (tracker_cls tr) p s = PyBool False"
  proof -
    from h(3) c have "15 < time \<and> time < fight_length s - 15
        \<longrightarrow> is_active (tracker_cls tr) p s = PyBool False" by simp
    from update_tracker_inactive[OF step h(1,2) Cons.prems(2) this]
    have "uptime tr1 = 0 \<and> num_procs tr1 = 0" .
    with rest(4) h(3) cls show ?thesis by simp
  qed
  ultimately show ?case using rest(2,3) by (intro exI[of _ tr']) simp
qed

lemma new_tracker_simps:
  "tracker_cls (new_tracker c) = c" "uptime (new_tracker c) = 0"
  "last_update (new_tracker c) = 15" "num_procs (new_tracker c) = 0"
  "active (new_tracker c) = False"
  by (simp_all add: new_tracker_def reset_tracker_def)



text \<open>C2, as stated, fails: the base class is constructed without complaint, its
  \<^verbatim>\<open>is_active\<close> hands back the exception object as an ordinary value, and the failure
  surfaces inside \<^verbatim>\<open>update\<close>, at run time.\<close>

theorem base_tracker_fails_in_update:
  "is_active (tracker_cls (new_tracker UptimeTracker_base)) example_player example_sim
     = PyNotImplementedError
   \<and> update_tracker (new_tracker UptimeTracker_base) 20 example_player example_sim
     = Inl TypeError"
  by (simp add: update_tracker_def new_tracker_simps example_sim_def)

text \<open>C2, amended. The two classes the simulation instantiates implement the predicate
  with a boolean result, and \<^verbatim>\<open>update\<close> on a tracker of either class never raises; the
  base class is not rejected when it is constructed.\<close>

theorem subclass_trackers_never_fail:
  "tracker_cls (new_tracker UptimeTracker_base) = UptimeTracker_base \<and>
   (\<exists>b. is_active RipTracker p s = PyBool b) \<and> (\<exists>b. is_active RoarTracker p s = PyBool b) \<and>
   (\<exists>tr. update_all (new_tracker RipTracker) calls = Inr tr) \<and>
   (\<exists>tr. update_all (new_tracker RoarTracker) calls = Inr tr)"
  using update_all_inv[of "new_tracker RipTracker" calls]
        update_all_inv[of "new_tracker RoarTracker" calls]
  by (simp add: new_tracker_simps) blast

section \<open>Properties of the ability casts and of the Roar clip\<close>

lemma arange_nth:
  "k < length (arange start stop step) \<Longrightarrow> arange start stop step ! k = start + real k * step"
  by (simp add: arange_def)

lemma arange_below:
  assumes "0 < step" and "t \<in> set (arange start stop step)"
  shows "t < stop"
proof -
  from assms(2) obtain i where i: "i < nat \<lceil>(stop - start) / step\<rceil>" and t: "t = start + real i * step"
    by (auto simp: arange_def)
  from i have "real i < (stop - start) / step" by linarith
  then have "real i * step < stop - start" using assms(1) by (simp add: pos_less_divide_eq)
  then show ?thesis using t by simp
qed

lemma arange_maximal:
  assumes "0 < step"
  shows "stop \<le> start + real (length (arange start stop step)) * step"
proof -
  have "(stop - start) / step \<le> real (nat \<lceil>(stop - start) / step\<rceil>)" by linarith
  then have "stop - start \<le> real (nat \<lceil>(stop - start) / step\<rceil>) * step"
    using assms by (simp add: pos_divide_le_eq)
  then show ?thesis by (simp add: arange_def)
qed


lemma example_sim_rip:
  "rip_debuff example_sim" "rip_start example_sim = 10" "rip_end example_sim = 22"
  "rip_ticks example_sim = [14, 16, 18, 20, 22]" "mangle_debuff example_sim"
  "player example_sim = example_player" "ext example_sim = ()"
  by (simp_all add: example_sim_def)

lemma example_sim_lacerate:
  "lacerate_debuff example_sim" "lacerate_stacks example_sim = 2"
  "lacerate_ticks example_sim = []" "last_lacerate_tick example_sim = Some 12"
  by (simp_all add: example_sim_def)


text \<open>C3. A Lacerate that lands on an active Lacerate keeps the tick cadence: the ticks
  already scheduled stay, and the appended ticks are \<open>last_tick + 3\<close>, \<open>last_tick + 6\<close>,
  and so on, all those below the new end \<open>time + 15\<close> (plus the tolerance), where
  \<open>last_tick\<close> is the last scheduled tick or, when none is left, the last executed one.
  The stack counter grows by one and stops at 5. The instance of the specification
  (two stacks, last tick at 12, refresh at 13) is the witness: next tick at 15, three
  stacks.\<close>

theorem lacerate_refresh_cadence:
  assumes "player_lacerate X (mangle_debuff s) (player s) (ext s) = ((dmg, True), p', x')"
    and "lacerate_debuff s"
    and "if lacerate_ticks s \<noteq> [] then last_tick = last (lacerate_ticks s)
         else last_lacerate_tick s = Some last_tick"
  shows "\<exists>s' new. lacerate X s time = Inr (dmg, s') \<and>
           lacerate_ticks s' = lacerate_ticks s @ new \<and>
           (\<forall>k < length new. new ! k = last_tick + 3 * real (k + 1)) \<and>
           (\<forall>t \<in> set new. t < time + 15 + 1 / 10 ^ 9) \<and>
           time + 15 + 1 / 10 ^ 9 \<le> last_tick + 3 * real (length new + 1) \<and>
           lacerate_end s' = time + 15 \<and>
           lacerate_stacks s' = min (lacerate_stacks s + 1) 5 \<and> lacerate_stacks s' \<le> 5"
proof -
  let ?new = "arange (last_tick + 3) (time + 15 + 1 / 10 ^ 9) 3"
  obtain s' where run: "lacerate X s time = Inr (dmg, s')"
    and ticks: "lacerate_ticks s' = lacerate_ticks s @ ?new"
    and rest: "lacerate_end s' = time + 15" "lacerate_stacks s' = min (lacerate_stacks s + 1) 5"
    using assms by (cases "lacerate_ticks s = []") (simp_all add: lacerate_def call_player_def Let_def)
  have "\<forall>k < length ?new. ?new ! k = last_tick + 3 * real (k + 1)"
    by (simp add: arange_nth algebra_simps)
  moreover have "\<forall>t \<in> set ?new. t < time + 15 + 1 / 10 ^ 9"
    using arange_below[of 3 _ "last_tick + 3" "time + 15 + 1 / 10 ^ 9"] by simp
  moreover have "time + 15 + 1 / 10 ^ 9 \<le> last_tick + 3 * real (length ?new + 1)"
    using arange_maximal[of 3 "time + 15 + 1 / 10 ^ 9" "last_tick + 3"] by (simp add: algebra_simps)
  ultimately show ?thesis using run ticks rest by (intro exI[of _ s'] exI[of _ ?new]) simp
qed

theorem lacerate_refresh_cadence_witness:
  "player_lacerate example_externals (mangle_debuff example_sim) (player example_sim)
      (ext example_sim) = ((300, True), example_player\<lparr>rage := - 13, player_gcd := 3 / 2\<rparr>, ())
   \<and> lacerate_debuff example_sim \<and> lacerate_stacks example_sim = 2
   \<and> lacerate_ticks example_sim = [] \<and> last_lacerate_tick example_sim = Some 12
   \<and> (\<exists>s'. lacerate example_externals example_sim 13 = Inr (300, s')
          \<and> lacerate_ticks s' = [15, 18, 21, 24, 27]
          \<and> lacerate_end s' = 28 \<and> lacerate_stacks s' = 3)"
proof -
  let ?p = "example_player\<lparr>rage := - 13, player_gcd := 3 / 2\<rparr>"
  have h1: "player_lacerate example_externals (mangle_debuff example_sim) (player example_sim)
      (ext example_sim) = ((300, True), ?p, ())"
    by (simp add: example_externals_def example_sim_rip) (simp add: example_player_def)
  have h3: "if lacerate_ticks example_sim \<noteq> [] then 12 = last (lacerate_ticks example_sim)
         else last_lacerate_tick example_sim = Some 12"
    by (simp add: example_sim_lacerate)
  from lacerate_refresh_cadence[OF h1 example_sim_lacerate(1) h3, of 13] obtain s' new where
    run: "lacerate example_externals example_sim 13 = Inr (300, s')"
    and ticks: "lacerate_ticks s' = lacerate_ticks example_sim @ new"
    and nth: "\<forall>k < length new. new ! k = 12 + 3 * real (k + 1)"
    and below: "\<forall>t \<in> set new. t < 13 + 15 + 1 / 10 ^ 9"
    and maximal: "13 + 15 + 1 / 10 ^ 9 \<le> 12 + 3 * real (length new + 1)"
    and rest: "lacerate_end s' = 13 + 15" "lacerate_stacks s' = min (lacerate_stacks example_sim + 1) 5"
    by blast
  have len: "length new = 5"
  proof (rule ccontr)
    assume "length new \<noteq> 5"
    then consider "length new \<le> 4" | "6 \<le> length new" by linarith
    then show False
    proof cases
      case 1
      then have "real (length new) \<le> 4" by simp
      with maximal show False by simp
    next
      case 2
      then have "5 < length new" by simp
      then have "new ! 5 \<in> set new" "new ! 5 = 12 + 3 * real (5 + 1)"
        using nth nth_mem by blast+
      with below show False by auto
    qed
  qed
  have "new = map (\<lambda>k. 12 + 3 * real (k + 1)) [0..<length new]"
    using nth by (intro nth_equalityI) auto
  then have "new = [15, 18, 21, 24, 27]" using len by (simp add: upt_rec)
  with run ticks rest have "\<exists>s'. lacerate example_externals example_sim 13 = Inr (300, s')
          \<and> lacerate_ticks s' = [15, 18, 21, 24, 27]
          \<and> lacerate_end s' = 28 \<and> lacerate_stacks s' = 3"
    by (simp add: example_sim_lacerate)
  with h1 show ?thesis by (simp add: example_sim_lacerate)
qed

text \<open>A first application, for comparison, starts a cadence of its own with one stack.\<close>

lemma lacerate_first_application:
  assumes "player_lacerate X (mangle_debuff s) (player s) (ext s) = ((dmg, True), p', x')"
    and "\<not> lacerate_debuff s"
  shows "\<exists>s'. lacerate X s time = Inr (dmg, s') \<and> lacerate_debuff s' \<and>
           lacerate_ticks s' = [time + 3, time + 6, time + 9, time + 12, time + 15] \<and>
           lacerate_stacks s' = 1"
  using assms by (simp add: lacerate_def call_player_def Let_def arange_def upt_rec)



section \<open>Waiting for energy\<close>









section \<open>Replicates and their seed\<close>

text \<open>The definitions that a concrete run unfolds.\<close>

lemmas run_defs = iterate_def run_def run_setup_def run_reset_def run_prepare_def
  run_finish_def finish_tracker_def
  loop_body_def record_and_advance_def cast_tigers_fury_def pop_proc_end_def
  drop_tf_in_bear_def decide_def append_player_log_def melee_swing_def use_enrage_def
  revitalize_def lacerate_expire_def lacerate_tick_due_def rake_expire_def rake_tick_due_def
  rip_expire_def rip_tick_due_def expire_buffs_def regen_and_cooldowns_def on_sim_def
  update_trinkets_def debuff_update_def debuff_reset_def execute_rotation_def
  compute_locals_def pending_refreshes_def schedule_next_def mangle_def call_player_def
  update_swing_times_def update_tracker_def new_tracker_def reset_tracker_def bind_e_def
  py_div_def Let_def log_event_def

lemmas short_fight_defs = seeded_externals_def example_externals_def short_fight_def
  example_player_def default_strategy_def default_params_def

lemma short_iterate_0:
  "map_option (map_sum id fst) (iterate seeded_externals 1 short_fight [7] 0)
   = Some (Inr (Some 30000, dmg_breakdown example_player,
                [(''Rip'', 0, 0), (''Savage Roar'', 0, 0)], 1 / 20))"
  by (simp add: run_defs short_fight_defs)

lemma short_iterate_1:
  "map_option (map_sum id fst) (iterate seeded_externals 1 short_fight [7] 1)
   = Some (Inr (Some 25000, dmg_breakdown example_player,
                [(''Rip'', 0, 0), (''Savage Roar'', 0, 0)], 3 / 50))"
  by (simp add: run_defs short_fight_defs)

text \<open>C1, amended. \<^verbatim>\<open>iterate\<close> has no seed among its arguments: whatever they are, the
  result is the same for the same entropy of the reseeding. When it returns, the
  nominal fight length is back in place, and (the player not having run out of mana)
  the reported time is the nominal length plus the first normal draw after the
  reseeding: the jitter is a function of the entropy alone.\<close>

theorem iterate_ignores_arguments:
  "iterate X fuel s args entropy = iterate X fuel s args' entropy \<and>
   (\<forall>avg_dps casts auras oom_time s'.
      iterate X fuel s args entropy = Some (Inr ((avg_dps, casts, auras, oom_time), s'))
      \<longrightarrow> fight_length s' = fight_length s \<and>
          (time_to_oom s' = None
           \<longrightarrow> oom_time = fight_length s + fst (np_randn X (np_seed X entropy (ext s)))))"
  by (auto simp: iterate_def Let_def split: prod.splits option.splits sum.splits)

text \<open>C1, as stated, fails: two replicates called with the same argument 7 differ (in
  fight length and average DPS) when the entropy differs, and two replicates called
  with the different arguments 7 and 8 have the same jitter when the entropy is the
  same.\<close>

theorem seed_argument_counterexample:
  "map_option (map_sum id fst) (iterate seeded_externals 1 short_fight [7] 0)
     = Some (Inr (Some 30000, dmg_breakdown example_player,
                  [(''Rip'', 0, 0), (''Savage Roar'', 0, 0)], 1 / 20))
   \<and> map_option (map_sum id fst) (iterate seeded_externals 1 short_fight [7] 1)
     = Some (Inr (Some 25000, dmg_breakdown example_player,
                  [(''Rip'', 0, 0), (''Savage Roar'', 0, 0)], 3 / 50))
   \<and> map_option (map_sum id fst) (iterate seeded_externals 1 short_fight [8] 1)
     = Some (Inr (Some 25000, dmg_breakdown example_player,
                  [(''Rip'', 0, 0), (''Savage Roar'', 0, 0)], 3 / 50))"
  using short_iterate_0 short_iterate_1 by (simp add: iterate_def)

theorem iterate_ignores_arguments_witness:
  "iterate seeded_externals 1 short_fight [7] 1 = iterate seeded_externals 1 short_fight [8] 1
   \<and> (\<exists>casts auras s'.
        iterate seeded_externals 1 short_fight [7] 1
          = Some (Inr ((Some 25000, casts, auras, 3 / 50), s'))
        \<and> fight_length s' = 1 / 20 \<and> time_to_oom s' = None
        \<and> 3 / 50 = fight_length short_fight
                    + fst (np_randn seeded_externals (np_seed seeded_externals 1 (ext short_fight))))"
proof -
  have ev: "map_option (map_sum id (\<lambda>(out, s'). (out, fight_length s', time_to_oom s')))
              (iterate seeded_externals 1 short_fight [7] 1)
            = Some (Inr ((Some 25000, dmg_breakdown example_player,
                          [(''Rip'', 0, 0), (''Savage Roar'', 0, 0)], 3 / 50), 1 / 20, None))"
    by (simp add: run_defs short_fight_defs)
  then obtain casts auras s' where
    it: "iterate seeded_externals 1 short_fight [7] 1
          = Some (Inr ((Some 25000, casts, auras, 3 / 50), s'))"
    and st: "fight_length s' = 1 / 20" "time_to_oom s' = None"
    by (cases "iterate seeded_externals 1 short_fight [7] 1")
       (auto simp: map_sum_def split: sum.splits)
  have fl: "fight_length short_fight = 1 / 20" "ext short_fight = 0"
    by (simp_all add: short_fight_def)
  have jit: "fst (np_randn seeded_externals (np_seed seeded_externals 1 (ext short_fight)))
             = 1 / 100"
    by (simp add: seeded_externals_def fl)
  from iterate_ignores_arguments[of seeded_externals 1 short_fight "[7]" 1 "[8]"]
  have "iterate seeded_externals 1 short_fight [7] 1
        = iterate seeded_externals 1 short_fight [8] 1" by blast
  moreover have "\<exists>casts auras s'.
        iterate seeded_externals 1 short_fight [7] 1
          = Some (Inr ((Some 25000, casts, auras, 3 / 50), s'))
        \<and> fight_length s' = 1 / 20 \<and> time_to_oom s' = None
        \<and> 3 / 50 = fight_length short_fight
                    + fst (np_randn seeded_externals (np_seed seeded_externals 1 (ext short_fight)))"
    using it st jit fl(1) by (intro exI[of _ casts] exI[of _ auras] exI[of _ s']) simp
  ultimately show ?thesis by blast
qed

section \<open>The running average is the mean\<close>












section \<open>Stat increments are undone\<close>

lemma add_attr_Inr:
  "add_attr pl name delta = Inr pl' \<Longrightarrow> \<exists>v. pl name = Some v \<and> pl' = pl(name \<mapsto> v + delta)"
  by (auto simp: add_attr_def split: option.splits)





end
